theory Spec2Isabelle
  imports Complex_Main
begin

section \<open>Data model\<close>

text \<open>
  The embedding covers the two classes of \<^verbatim>\<open>vtkMRMLCollectPointsNode.cxx\<close>: the
  parameter node \<^verbatim>\<open>vtkMRMLCollectPointsNode\<close> (the collection session) and the
  controller \<^verbatim>\<open>vtkSlicerCollectPointsLogic\<close>. A pointer to a scene node is the
  node's ID; \<^verbatim>\<open>NULL\<close> is \<open>None\<close>. A \<^verbatim>\<open>double\<close> is a \<open>real\<close>, as the
  specification's data model has it (NaN and rounding are outside the model).
\<close>

type_synonym node_id = string

type_synonym point = "real \<times> real \<times> real"

text \<open>\<^verbatim>\<open>vtkMatrix4x4\<close>, read only through \<^verbatim>\<open>GetElement(i, j)\<close>.\<close>

type_synonym Matrix4x4 = "nat \<Rightarrow> nat \<Rightarrow> real"

definition GetElement :: "Matrix4x4 \<Rightarrow> nat \<Rightarrow> nat \<Rightarrow> real" where
  "GetElement m i j = m i j"

text \<open>
  \<^verbatim>\<open>vtkCellArray\<close>: the cells in insertion order, each the list of its point ids.
\<close>

type_synonym CellArray = "nat list list"

text \<open>
  \<^verbatim>\<open>vtkPolyData\<close>: the point array and the four cell arrays of a poly data (vertices,
  lines, polygons and triangle strips). The source reads and writes the points
  (\<^verbatim>\<open>GetPoints/SetPoints\<close>) and writes the first three cell arrays (\<^verbatim>\<open>SetVerts\<close>,
  \<^verbatim>\<open>SetLines\<close>, \<^verbatim>\<open>SetPolys\<close>); it never writes the strips. Each member may be
  \<^verbatim>\<open>NULL\<close>.
\<close>

record PolyData =
  Points :: "point list option"
  Verts :: "CellArray option"
  Lines :: "CellArray option"
  Polys :: "CellArray option"
  Strips :: "CellArray option"

text \<open>\<^verbatim>\<open>vtkSmartPointer< vtkPolyData >::New()\<close>: no points, no cells.\<close>

definition New_PolyData :: PolyData where
  "New_PolyData = \<lparr>Points = None, Verts = None, Lines = None, Polys = None, Strips = None\<rparr>"

text \<open>\<^verbatim>\<open>vtkPolyData::GetNumberOfPoints\<close>: 0 when there is no point array.\<close>

definition GetNumberOfPoints :: "PolyData \<Rightarrow> nat" where
  "GetNumberOfPoints pd = (case Points pd of None \<Rightarrow> 0 | Some ps \<Rightarrow> length ps)"

definition GetNumberOfCellsIn :: "CellArray option \<Rightarrow> nat" where
  "GetNumberOfCellsIn ca = (case ca of None \<Rightarrow> 0 | Some cs \<Rightarrow> length cs)"

text \<open>\<^verbatim>\<open>vtkPolyData::GetNumberOfCells\<close>: the vertex, line, polygon and strip cells together.\<close>

definition GetNumberOfCells :: "PolyData \<Rightarrow> nat" where
  "GetNumberOfCells pd =
     GetNumberOfCellsIn (Verts pd) + GetNumberOfCellsIn (Lines pd) + GetNumberOfCellsIn (Polys pd) +
     GetNumberOfCellsIn (Strips pd)"

text \<open>
  The kinds of scene node the source distinguishes by \<^verbatim>\<open>SafeDownCast\<close>: a linear
  transform (a frame), a markups fiducial list (the point-set sink: labelled points in
  insertion order), a model (the mesh sink, whose poly data may be \<^verbatim>\<open>NULL\<close>), and any
  other node.
\<close>

datatype MRMLNode =
    LinearTransformNode
  | MarkupsFiducialNode "(string \<times> point) list"
  | ModelNode "PolyData option"
  | OtherNode

type_synonym Scene = "node_id \<Rightarrow> MRMLNode option"

text \<open>
  Modelled from the spec: the header \<^verbatim>\<open>vtkMRMLCollectPointsNode.h\<close> is not among the
  sources. The collect mode is the enumeration \<open>{Manual, Automatic}\<close>, the label
  counter an integer, the minimum distance a real.
\<close>

datatype CollectModeType = Manual | Automatic

record CollectPointsNode =
  LabelBase :: string
  LabelCounter :: int
  MinimumDistanceMm :: real
  CollectMode :: CollectModeType
  SamplingTransformNodeID :: "node_id option"
  AnchorTransformNodeID :: "node_id option"
  OutputNodeID :: "node_id option"

text \<open>The constructor \<^verbatim>\<open>vtkMRMLCollectPointsNode::vtkMRMLCollectPointsNode\<close>.\<close>

definition New_CollectPointsNode :: CollectPointsNode where
  "New_CollectPointsNode =
     \<lparr>LabelBase = ''P'', LabelCounter = 0, MinimumDistanceMm = 10, CollectMode = Manual,
      SamplingTransformNodeID = None, AnchorTransformNodeID = None, OutputNodeID = None\<rparr>"

text \<open>
  What a call lets the outside observe besides the state: the messages of
  \<^verbatim>\<open>vtkErrorMacro\<close> and \<^verbatim>\<open>vtkWarningMacro\<close>, and the events it invokes, in order.
\<close>

datatype error_kind =
    NoParameterNode
  | NoSamplingFrame
  | NoOutput
  | MissingFrame
  | CoordinatesNotComputed
  | UnsupportedOutputKind
  | OutputNodeIsNull
  | PolyDataIsNull
  | FrameConflict

datatype warning_kind = NotFullySetUp | Deprecated

datatype event = InputDataModifiedEvent | OtherEvent nat

datatype report = Error error_kind | Warning warning_kind | Invoked event

text \<open>
  The frame provider (\<^verbatim>\<open>vtkMRMLTransformNode::GetMatrixTransformToWorld\<close> and
  \<^verbatim>\<open>GetMatrixTransformToNode\<close>) is an external collaborator: its answers are a
  parameter of every operation that samples.
\<close>

record Frames =
  MatrixTransformToWorld :: "node_id \<Rightarrow> Matrix4x4"
  MatrixTransformToNode :: "node_id \<Rightarrow> node_id \<Rightarrow> Matrix4x4"

section \<open>Collaborator operations\<close>

text \<open>\<^verbatim>\<open>vtkMRMLNode::GetNodeReference\<close>: the referenced node, when the ID is set and in the scene.\<close>

definition GetNodeReference :: "Scene \<Rightarrow> node_id option \<Rightarrow> node_id option" where
  "GetNodeReference sc r =
     (case r of None \<Rightarrow> None
      | Some i \<Rightarrow> (case sc i of None \<Rightarrow> None | Some _ \<Rightarrow> Some i))"

definition SafeDownCast_LinearTransform :: "Scene \<Rightarrow> node_id option \<Rightarrow> node_id option" where
  "SafeDownCast_LinearTransform sc p =
     (case p of None \<Rightarrow> None
      | Some i \<Rightarrow> (case sc i of Some LinearTransformNode \<Rightarrow> Some i | _ \<Rightarrow> None))"

definition SafeDownCast_Markups :: "Scene \<Rightarrow> node_id option \<Rightarrow> (node_id \<times> (string \<times> point) list) option" where
  "SafeDownCast_Markups sc p =
     (case p of None \<Rightarrow> None
      | Some i \<Rightarrow> (case sc i of Some (MarkupsFiducialNode ms) \<Rightarrow> Some (i, ms) | _ \<Rightarrow> None))"

definition SafeDownCast_Model :: "Scene \<Rightarrow> node_id option \<Rightarrow> (node_id \<times> PolyData option) option" where
  "SafeDownCast_Model sc p =
     (case p of None \<Rightarrow> None
      | Some i \<Rightarrow> (case sc i of Some (ModelNode pd) \<Rightarrow> Some (i, pd) | _ \<Rightarrow> None))"

text \<open>\<^verbatim>\<open>vtkMath::Distance2BetweenPoints\<close>: the squared Euclidean distance.\<close>

definition Distance2BetweenPoints :: "point \<Rightarrow> point \<Rightarrow> real" where
  "Distance2BetweenPoints p q =
     (case p of (p0, p1, p2) \<Rightarrow> case q of (q0, q1, q2) \<Rightarrow>
        (p0 - q0) * (p0 - q0) + (p1 - q1) * (p1 - q1) + (p2 - q2) * (p2 - q2))"

text \<open>
  \<^verbatim>\<open>AddFiducialFromArray\<close> appends a fiducial (with the markups node's own default
  label) and returns its index; \<^verbatim>\<open>SetNthFiducialLabel\<close> relabels the n-th fiducial;
  \<^verbatim>\<open>RemoveMarkup\<close> deletes the n-th.
\<close>

definition AddFiducialFromArray :: "(string \<times> point) list \<Rightarrow> point \<Rightarrow> nat \<times> (string \<times> point) list" where
  "AddFiducialFromArray ms p = (length ms, ms @ [([], p)])"

definition SetNthFiducialLabel :: "(string \<times> point) list \<Rightarrow> nat \<Rightarrow> string \<Rightarrow> (string \<times> point) list" where
  "SetNthFiducialLabel ms n l = (if n < length ms then ms[n := (l, snd (ms ! n))] else ms)"

definition RemoveMarkup :: "(string \<times> point) list \<Rightarrow> nat \<Rightarrow> (string \<times> point) list" where
  "RemoveMarkup ms n = take n ms @ drop (Suc n) ms"

text \<open>\<^verbatim>\<open>operator<<\<close> on an integer: decimal digits, no padding, a minus sign when negative.\<close>

fun show_nat :: "nat \<Rightarrow> string" where
  "show_nat n =
     (if n < 10 then [char_of (48 + n)]
      else show_nat (n div 10) @ [char_of (48 + n mod 10)])"

declare show_nat.simps [simp del]

definition show_int :: "int \<Rightarrow> string" where
  "show_int i = (if i < 0 then CHR ''-'' # show_nat (nat (- i)) else show_nat (nat i))"

section \<open>The parameter node: vtkMRMLCollectPointsNode\<close>

definition GetSamplingTransformNode :: "Scene \<Rightarrow> CollectPointsNode \<Rightarrow> node_id option" where
  "GetSamplingTransformNode sc n =
     SafeDownCast_LinearTransform sc (GetNodeReference sc (SamplingTransformNodeID n))"

definition GetAnchorTransformNode :: "Scene \<Rightarrow> CollectPointsNode \<Rightarrow> node_id option" where
  "GetAnchorTransformNode sc n =
     SafeDownCast_LinearTransform sc (GetNodeReference sc (AnchorTransformNodeID n))"

definition GetOutputNode :: "Scene \<Rightarrow> CollectPointsNode \<Rightarrow> node_id option" where
  "GetOutputNode sc n = GetNodeReference sc (OutputNodeID n)"

text \<open>
  The two setters take a \<^verbatim>\<open>const char*\<close> that may be \<^verbatim>\<open>NULL\<close>. The first test is
  "not changed", the second the same-frame test; only then is the reference written
  (\<^verbatim>\<open>SetAndObserveNodeReferenceID\<close>).
\<close>

definition SetAndObserveSamplingTransformNodeID ::
    "CollectPointsNode \<Rightarrow> node_id option \<Rightarrow> report list \<times> CollectPointsNode" where
  "SetAndObserveSamplingTransformNodeID n nodeID =
     (let currentNodeID = SamplingTransformNodeID n in
      if nodeID \<noteq> None \<and> currentNodeID \<noteq> None \<and> nodeID = currentNodeID then ([], n)
      else
        let currentAnchorNodeID = AnchorTransformNodeID n in
        if nodeID \<noteq> None \<and> currentAnchorNodeID \<noteq> None \<and> nodeID = currentAnchorNodeID
        then ([Error FrameConflict], n)
        else ([Invoked InputDataModifiedEvent], n\<lparr>SamplingTransformNodeID := nodeID\<rparr>))"

definition SetAndObserveAnchorTransformNodeID ::
    "CollectPointsNode \<Rightarrow> node_id option \<Rightarrow> report list \<times> CollectPointsNode" where
  "SetAndObserveAnchorTransformNodeID n nodeID =
     (let currentAnchorNodeID = AnchorTransformNodeID n in
      if nodeID \<noteq> None \<and> currentAnchorNodeID \<noteq> None \<and> nodeID = currentAnchorNodeID then ([], n)
      else
        let currentSamplingNodeID = SamplingTransformNodeID n in
        if nodeID \<noteq> None \<and> currentSamplingNodeID \<noteq> None \<and> nodeID = currentSamplingNodeID
        then ([Error FrameConflict], n)
        else ([], n\<lparr>AnchorTransformNodeID := nodeID\<rparr>))"

definition SetOutputNodeID :: "CollectPointsNode \<Rightarrow> node_id option \<Rightarrow> CollectPointsNode" where
  "SetOutputNodeID n nodeID =
     (let currentNodeID = OutputNodeID n in
      if nodeID \<noteq> None \<and> currentNodeID \<noteq> None \<and> nodeID = currentNodeID then n
      else n\<lparr>OutputNodeID := nodeID\<rparr>)"

text \<open>\<^verbatim>\<open>GetNumberOfPointsInOutput\<close> reads the scene and writes nothing: it returns its messages and the count.\<close>

definition GetNumberOfPointsInOutput :: "Scene \<Rightarrow> CollectPointsNode \<Rightarrow> report list \<times> int" where
  "GetNumberOfPointsInOutput sc n =
     (case GetOutputNode sc n of
        None \<Rightarrow> ([], 0)
      | Some outputNode \<Rightarrow>
          (case SafeDownCast_Markups sc (Some outputNode) of
             Some (_, ms) \<Rightarrow> ([], int (length ms))
           | None \<Rightarrow>
               (case SafeDownCast_Model sc (Some outputNode) of
                  Some (_, outputPolyData) \<Rightarrow>
                    (case outputPolyData of
                       None \<Rightarrow> ([], 0)
                     | Some pd \<Rightarrow> ([], int (GetNumberOfPoints pd)))
                | None \<Rightarrow> ([Error UnsupportedOutputKind], 0))))"

text \<open>
  Modelled from the spec: \<^verbatim>\<open>SetCollectModeToManual\<close> is defined in the header, which
  is not among the sources. The mode becomes \<open>Manual\<close>.
\<close>

definition SetCollectModeToManual :: "CollectPointsNode \<Rightarrow> CollectPointsNode" where
  "SetCollectModeToManual n = n\<lparr>CollectMode := Manual\<rparr>"

subsection \<open>The deprecated accessors\<close>

definition GetProbeTransformNode :: "Scene \<Rightarrow> CollectPointsNode \<Rightarrow> report list \<times> node_id option" where
  "GetProbeTransformNode sc n = ([Warning Deprecated], GetSamplingTransformNode sc n)"

text \<open>
  \<^verbatim>\<open>SetAndObserveProbeTransformNodeID\<close> warns and then calls
  \<^verbatim>\<open>this->SetAndObserveProbeTransformNodeID( nodeID )\<close>, that is, itself. A call that
  does not return is the value \<open>None\<close>.
\<close>

partial_function (option) SetAndObserveProbeTransformNodeID ::
    "CollectPointsNode \<Rightarrow> node_id option \<Rightarrow> (report list \<times> CollectPointsNode) option" where
  "SetAndObserveProbeTransformNodeID n nodeID =
     Option.bind (SetAndObserveProbeTransformNodeID n nodeID)
       (\<lambda>(msgs, n'). Some (Warning Deprecated # msgs, n'))"

section \<open>The controller: vtkSlicerCollectPointsLogic\<close>

definition ComputeMinimumDistanceFromPreviousPointMm :: "CollectPointsNode \<Rightarrow> real" where
  "ComputeMinimumDistanceFromPreviousPointMm n =
     (if CollectMode n = Automatic then MinimumDistanceMm n else 0)"

text \<open>
  \<^verbatim>\<open>ComputePointCoordinates\<close> writes through \<^verbatim>\<open>outputPointCoordinates\<close> and
  \<^verbatim>\<open>success\<close>: the model takes the array's contents on entry and returns the
  messages, the array's contents on exit and \<^verbatim>\<open>success\<close>.
\<close>

definition ComputePointCoordinates ::
    "Frames \<Rightarrow> Scene \<Rightarrow> CollectPointsNode option \<Rightarrow> point \<Rightarrow> report list \<times> point \<times> bool" where
  "ComputePointCoordinates fr sc collectPointsNode outputPointCoordinates =
     (case collectPointsNode of
        None \<Rightarrow> ([Error NoParameterNode], outputPointCoordinates, False)
      | Some n \<Rightarrow>
          (case GetSamplingTransformNode sc n of
             None \<Rightarrow> ([Error MissingFrame], outputPointCoordinates, False)
           | Some samplingNode \<Rightarrow>
               (case GetAnchorTransformNode sc n of
                  None \<Rightarrow>
                    (let samplingToWorld = MatrixTransformToWorld fr samplingNode in
                     ([], (GetElement samplingToWorld 0 3, GetElement samplingToWorld 1 3,
                           GetElement samplingToWorld 2 3), True))
                | Some anchorNode \<Rightarrow>
                    (let samplingToAnchor = MatrixTransformToNode fr samplingNode anchorNode in
                     ([], (GetElement samplingToAnchor 0 3, GetElement samplingToAnchor 1 3,
                           GetElement samplingToAnchor 2 3), True)))))"

text \<open>
  \<^verbatim>\<open>UpdateCellsForPolyData\<close>: one single-point vertex cell per point id, in order;
  lines and polys are set to \<^verbatim>\<open>NULL\<close>. The strips are not touched.
\<close>

definition UpdateCellsForPolyData :: "PolyData option \<Rightarrow> report list \<times> PolyData option" where
  "UpdateCellsForPolyData polyData =
     (case polyData of
        None \<Rightarrow> ([Error PolyDataIsNull], None)
      | Some pd \<Rightarrow>
          (let numberOfPoints = GetNumberOfPoints pd;
               verticesCellArray = map (\<lambda>ptId. [ptId]) [0..<numberOfPoints]
           in ([], Some (pd\<lparr>Verts := Some verticesCellArray, Lines := None, Polys := None\<rparr>))))"

text \<open>
  \<^verbatim>\<open>AddPointToMarkups\<close>: the distance test against the last fiducial, then the label
  \<^verbatim>\<open>LabelBase << LabelCounter\<close>, the new fiducial, and the counter plus one.
\<close>

definition AddPointToMarkups ::
    "Scene \<Rightarrow> CollectPointsNode \<Rightarrow> point \<Rightarrow> report list \<times> Scene \<times> CollectPointsNode" where
  "AddPointToMarkups sc n pointCoordinates =
     (case SafeDownCast_Markups sc (GetOutputNode sc n) of
        None \<Rightarrow> ([Error OutputNodeIsNull], sc, n)
      | Some (markupsNode, ms) \<Rightarrow>
          (let numberOfPoints = length ms;
               minimumDistanceFromPreviousPointMm = ComputeMinimumDistanceFromPreviousPointMm n;
               markupLabel = LabelBase n @ show_int (LabelCounter n);
               added =
                 (case AddFiducialFromArray ms pointCoordinates of
                    (pointIndexInMarkups, ms') \<Rightarrow>
                      ([], sc(markupsNode \<mapsto>
                             MarkupsFiducialNode (SetNthFiducialLabel ms' pointIndexInMarkups markupLabel)),
                       n\<lparr>LabelCounter := LabelCounter n + 1\<rparr>))
           in if minimumDistanceFromPreviousPointMm > 0 \<and> numberOfPoints > 0 then
                (let previousCoordinates = snd (ms ! (numberOfPoints - 1));
                     distanceMm = sqrt (Distance2BetweenPoints pointCoordinates previousCoordinates)
                 in if distanceMm < minimumDistanceFromPreviousPointMm then ([], sc, n) else added)
              else added))"

text \<open>
  \<^verbatim>\<open>AddPointToModel\<close>: a missing poly data or point array is created first; then the
  same distance test against the last point, \<^verbatim>\<open>InsertNextPoint\<close> and
  \<^verbatim>\<open>UpdateCellsForPolyData\<close>.
\<close>

definition AddPointToModel ::
    "Scene \<Rightarrow> CollectPointsNode \<Rightarrow> point \<Rightarrow> report list \<times> Scene \<times> CollectPointsNode" where
  "AddPointToModel sc n pointCoordinates =
     (case SafeDownCast_Model sc (GetOutputNode sc n) of
        None \<Rightarrow> ([Error OutputNodeIsNull], sc, n)
      | Some (modelNode, pd0) \<Rightarrow>
          (let polyData = (case pd0 of None \<Rightarrow> New_PolyData | Some pd \<Rightarrow> pd);
               points = (case Points polyData of None \<Rightarrow> [] | Some ps \<Rightarrow> ps);
               numberOfPoints = length points;
               minimumDistanceFromPreviousPointMm = ComputeMinimumDistanceFromPreviousPointMm n;
               added =
                 (case UpdateCellsForPolyData
                         (Some (polyData\<lparr>Points := Some (points @ [pointCoordinates])\<rparr>)) of
                    (msgs, polyData') \<Rightarrow> (msgs, sc(modelNode \<mapsto> ModelNode polyData'), n))
           in if minimumDistanceFromPreviousPointMm > 0 \<and> numberOfPoints > 0 then
                (let previousCoordinates = points ! (numberOfPoints - 1);
                     distanceMm = sqrt (Distance2BetweenPoints pointCoordinates previousCoordinates)
                 in if distanceMm < minimumDistanceFromPreviousPointMm
                    then ([], sc(modelNode \<mapsto> ModelNode (Some (polyData\<lparr>Points := Some points\<rparr>))), n)
                    else added)
              else added))"

text \<open>
  \<^verbatim>\<open>RemoveLastPointFromModel\<close>: with no points it installs an empty point array and
  returns; otherwise it copies the points with ids below \<^verbatim>\<open>numberOfPointsToRetain\<close>
  and calls \<^verbatim>\<open>UpdateCellsForPolyData\<close>.
\<close>

definition RemoveLastPointFromModel ::
    "Scene \<Rightarrow> (node_id \<times> PolyData option) option \<Rightarrow> report list \<times> Scene" where
  "RemoveLastPointFromModel sc modelNode =
     (case modelNode of
        None \<Rightarrow> ([Error OutputNodeIsNull], sc)
      | Some (m, pd0) \<Rightarrow>
          (let polyData = (case pd0 of None \<Rightarrow> New_PolyData | Some pd \<Rightarrow> pd);
               nothingToDo = ([], sc(m \<mapsto> ModelNode (Some (polyData\<lparr>Points := Some []\<rparr>))))
           in case Points polyData of
                None \<Rightarrow> nothingToDo
              | Some oldPoints \<Rightarrow>
                  if length oldPoints = 0 then nothingToDo
                  else
                    (let numberOfPointsToRetain = length oldPoints - 1;
                         newPoints = map (\<lambda>ptId. oldPoints ! ptId) [0..<numberOfPointsToRetain]
                     in case UpdateCellsForPolyData (Some (polyData\<lparr>Points := Some newPoints\<rparr>)) of
                          (msgs, polyData') \<Rightarrow> (msgs, sc(m \<mapsto> ModelNode polyData')))))"

definition AddPoint ::
    "Frames \<Rightarrow> Scene \<Rightarrow> CollectPointsNode option \<Rightarrow> report list \<times> Scene \<times> CollectPointsNode option" where
  "AddPoint fr sc collectPointsNode =
     (case collectPointsNode of
        None \<Rightarrow> ([Error NoParameterNode], sc, None)
      | Some n \<Rightarrow>
          (case GetSamplingTransformNode sc n of
             None \<Rightarrow> ([Error NoSamplingFrame], sc, Some n)
           | Some samplingNode \<Rightarrow>
               (case GetOutputNode sc n of
                  None \<Rightarrow> ([Error NoOutput], sc, Some n)
                | Some outputNode \<Rightarrow>
                    (case ComputePointCoordinates fr sc (Some n) (0, 0, 0) of
                       (msgs, pointCoordinates, success) \<Rightarrow>
                         if \<not> success then (msgs @ [Error CoordinatesNotComputed], sc, Some n)
                         else if SafeDownCast_Markups sc (Some outputNode) \<noteq> None then
                           (case AddPointToMarkups sc n pointCoordinates of
                              (msgs', sc', n') \<Rightarrow> (msgs @ msgs', sc', Some n'))
                         else if SafeDownCast_Model sc (Some outputNode) \<noteq> None then
                           (case AddPointToModel sc n pointCoordinates of
                              (msgs', sc', n') \<Rightarrow> (msgs @ msgs', sc', Some n'))
                         else (msgs @ [Error UnsupportedOutputKind], sc, Some n)))))"

definition RemoveLastPoint :: "Scene \<Rightarrow> CollectPointsNode \<Rightarrow> report list \<times> Scene" where
  "RemoveLastPoint sc n =
     (case GetOutputNode sc n of
        None \<Rightarrow> ([Error NoOutput], sc)
      | Some outputNode \<Rightarrow>
          (case SafeDownCast_Markups sc (Some outputNode) of
             Some (outputMarkupsNode, ms) \<Rightarrow>
               (let numberOfPoints = length ms in
                if numberOfPoints = 0 then ([], sc)
                else ([], sc(outputMarkupsNode \<mapsto>
                             MarkupsFiducialNode (RemoveMarkup ms (numberOfPoints - 1)))))
           | None \<Rightarrow>
               (case SafeDownCast_Model sc (Some outputNode) of
                  Some outputModelNode \<Rightarrow> RemoveLastPointFromModel sc (Some outputModelNode)
                | None \<Rightarrow> ([Error UnsupportedOutputKind], sc))))"

definition RemoveAllPoints :: "Scene \<Rightarrow> CollectPointsNode \<Rightarrow> report list \<times> Scene" where
  "RemoveAllPoints sc n =
     (case GetOutputNode sc n of
        None \<Rightarrow> ([Error NoOutput], sc)
      | Some outputNode \<Rightarrow>
          (case SafeDownCast_Markups sc (Some outputNode) of
             Some (outputMarkupsNode, ms) \<Rightarrow> ([], sc(outputMarkupsNode \<mapsto> MarkupsFiducialNode []))
           | None \<Rightarrow>
               (case SafeDownCast_Model sc (Some outputNode) of
                  Some (outputModelNode, pd) \<Rightarrow>
                    ([], sc(outputModelNode \<mapsto> ModelNode (Some New_PolyData)))
                | None \<Rightarrow> ([Error UnsupportedOutputKind], sc))))"

text \<open>
  \<^verbatim>\<open>ProcessMRMLNodesEvents\<close>: \<open>caller\<close> is the result of the down-cast of the
  event's sender to the parameter node.
\<close>

definition ProcessMRMLNodesEvents ::
    "Frames \<Rightarrow> Scene \<Rightarrow> CollectPointsNode option \<Rightarrow> event \<Rightarrow>
       report list \<times> Scene \<times> CollectPointsNode option" where
  "ProcessMRMLNodesEvents fr sc caller ev =
     (case caller of
        None \<Rightarrow> ([Error NoParameterNode], sc, None)
      | Some n \<Rightarrow>
          if ev = InputDataModifiedEvent then
            (if CollectMode n = Automatic then
               (if GetOutputNode sc n = None \<or> GetSamplingTransformNode sc n = None
                then ([Warning NotFullySetUp], sc, Some (SetCollectModeToManual n))
                else AddPoint fr sc (Some n))
             else ([], sc, Some n))
          else ([], sc, Some n))"

section \<open>Sessions as sequences of requests\<close>

text \<open>
  A request of the owner to the controller. One that samples carries the frame
  provider's answers at that moment. A frame-change notification is the event
  \<open>InputDataModifiedEvent\<close> delivered to \<open>ProcessMRMLNodesEvents\<close>.
\<close>

datatype request =
    RequestAddPoint Frames
  | RequestRemoveLastPoint
  | RequestRemoveAllPoints
  | SamplingFrameChanged Frames

type_synonym world = "Scene \<times> CollectPointsNode"

definition keep_node :: "CollectPointsNode \<Rightarrow> report list \<times> Scene \<times> CollectPointsNode option \<Rightarrow> world" where
  "keep_node n r =
     (case r of (msgs, sc', collectPointsNode) \<Rightarrow>
        (sc', case collectPointsNode of None \<Rightarrow> n | Some n' \<Rightarrow> n'))"

fun step :: "world \<Rightarrow> request \<Rightarrow> world" where
  "step (sc, n) (RequestAddPoint fr) = keep_node n (AddPoint fr sc (Some n))"
| "step (sc, n) RequestRemoveLastPoint = (snd (RemoveLastPoint sc n), n)"
| "step (sc, n) RequestRemoveAllPoints = (snd (RemoveAllPoints sc n), n)"
| "step (sc, n) (SamplingFrameChanged fr) =
     keep_node n (ProcessMRMLNodesEvents fr sc (Some n) InputDataModifiedEvent)"


text \<open>The operations of the mesh sink, on the model node the session is bound to.\<close>

datatype mesh_op = Append point | RemoveLast | RemoveAll

fun mesh_step :: "world \<Rightarrow> mesh_op \<Rightarrow> world" where
  "mesh_step (sc, n) (Append p) = (case AddPointToModel sc n p of (msgs, sc', n') \<Rightarrow> (sc', n'))"
| "mesh_step (sc, n) RemoveLast = (snd (RemoveLastPoint sc n), n)"
| "mesh_step (sc, n) RemoveAll = (snd (RemoveAllPoints sc n), n)"

definition mesh_run :: "world \<Rightarrow> mesh_op list \<Rightarrow> world" where
  "mesh_run w ops = foldl mesh_step w ops"

text \<open>The poly data of the model node the session writes to (\<^verbatim>\<open>NULL\<close> when it has none).\<close>

definition OutputPolyData :: "world \<Rightarrow> PolyData option" where
  "OutputPolyData w =
     (case SafeDownCast_Model (fst w) (GetOutputNode (fst w) (snd w)) of
        None \<Rightarrow> None
      | Some (m, pd) \<Rightarrow> pd)"

definition cells_of :: "CellArray option \<Rightarrow> CellArray" where
  "cells_of ca = (case ca of None \<Rightarrow> [] | Some cs \<Rightarrow> cs)"

definition points_of :: "PolyData option \<Rightarrow> point list" where
  "points_of pd = (case pd of None \<Rightarrow> [] | Some d \<Rightarrow> (case Points d of None \<Rightarrow> [] | Some ps \<Rightarrow> ps))"

text \<open>
  The mesh after an admitted append of \<open>p\<close>: the point at the end, one vertex cell per
  point, no lines, no polys (a missing poly data is created first).
\<close>

definition appended_mesh :: "PolyData option \<Rightarrow> point \<Rightarrow> PolyData" where
  "appended_mesh pd0 p =
     (case pd0 of None \<Rightarrow> New_PolyData | Some pd \<Rightarrow> pd)
       \<lparr>Points := Some (points_of pd0 @ [p]),
        Verts := Some (map (\<lambda>ptId. [ptId]) [0..<Suc (length (points_of pd0))]),
        Lines := None, Polys := None\<rparr>"

text \<open>
  The mesh after \<open>RemoveLastPointFromModel\<close>: with no points, the same poly data with
  an empty point array; otherwise the points but the last, one vertex cell per point,
  no lines, no polys.
\<close>

definition removed_last_mesh :: "PolyData option \<Rightarrow> PolyData" where
  "removed_last_mesh pd0 =
     (if points_of pd0 = []
      then (case pd0 of None \<Rightarrow> New_PolyData | Some pd \<Rightarrow> pd)\<lparr>Points := Some []\<rparr>
      else (case pd0 of None \<Rightarrow> New_PolyData | Some pd \<Rightarrow> pd)
             \<lparr>Points := Some (butlast (points_of pd0)),
              Verts := Some (map (\<lambda>ptId. [ptId]) [0..<length (points_of pd0) - 1]),
              Lines := None, Polys := None\<rparr>)"

text \<open>
  The cells \<open>UpdateCellsForPolyData\<close> writes, rebuilt: the vertex cells are exactly one
  single-point cell per point, in point-index order, and there is no line and no
  polygon cell. A model node without poly data has no point and no cell.
\<close>

definition rebuilt_cells :: "PolyData option \<Rightarrow> bool" where
  "rebuilt_cells pd =
     (case pd of
        None \<Rightarrow> True
      | Some d \<Rightarrow>
          cells_of (Verts d) = map (\<lambda>ptId. [ptId]) [0..<GetNumberOfPoints d] \<and>
          cells_of (Lines d) = [] \<and> cells_of (Polys d) = [])"

definition strips_of :: "PolyData option \<Rightarrow> CellArray" where
  "strips_of pd = (case pd of None \<Rightarrow> [] | Some d \<Rightarrow> cells_of (Strips d))"

text \<open>
  The mesh invariant, the vertex topology: the rebuilt cells and no other cell, that
  is, no triangle strip either.
\<close>

definition vertex_topology :: "PolyData option \<Rightarrow> bool" where
  "vertex_topology pd = (rebuilt_cells pd \<and> strips_of pd = [])"

definition cell_count :: "PolyData option \<Rightarrow> nat" where
  "cell_count pd = (case pd of None \<Rightarrow> 0 | Some d \<Rightarrow> GetNumberOfCells d)"

section \<open>The specification's distance gate\<close>

text \<open>
  The gate as the specification words it (4.2): admit when the minimum distance is at
  most 0 or there is no previous point; otherwise admit exactly when the Euclidean
  distance between candidate and previous point is at least the minimum distance.
\<close>

definition euclidean_distance :: "point \<Rightarrow> point \<Rightarrow> real" where
  "euclidean_distance p q =
     (case p of (p0, p1, p2) \<Rightarrow> case q of (q0, q1, q2) \<Rightarrow>
        sqrt ((p0 - q0)\<^sup>2 + (p1 - q1)\<^sup>2 + (p2 - q2)\<^sup>2))"

definition Admit :: "point \<Rightarrow> point option \<Rightarrow> real \<Rightarrow> bool" where
  "Admit candidate previous minimumDistanceMm =
     (if minimumDistanceMm \<le> 0 then True
      else case previous of
             None \<Rightarrow> True
           | Some prev \<Rightarrow> minimumDistanceMm \<le> euclidean_distance candidate prev)"

text \<open>The previous point of a sink: its last point, absent when the sink is empty.\<close>

definition previous_point :: "point list \<Rightarrow> point option" where
  "previous_point ps = (if ps = [] then None else Some (last ps))"

section \<open>The lifetime of a session\<close>

text \<open>The same-frame invariant of the session's two frame references.\<close>

definition frames_differ :: "CollectPointsNode \<Rightarrow> bool" where
  "frames_differ n =
     (SamplingTransformNodeID n = None \<or> AnchorTransformNodeID n = None \<or>
      SamplingTransformNodeID n \<noteq> AnchorTransformNodeID n)"

datatype assignment =
    AssignSampling "node_id option"
  | AssignAnchor "node_id option"
  | AssignOutput "node_id option"

fun assign :: "CollectPointsNode \<Rightarrow> assignment \<Rightarrow> CollectPointsNode" where
  "assign n (AssignSampling nodeID) = snd (SetAndObserveSamplingTransformNodeID n nodeID)"
| "assign n (AssignAnchor nodeID) = snd (SetAndObserveAnchorTransformNodeID n nodeID)"
| "assign n (AssignOutput nodeID) = SetOutputNodeID n nodeID"

text \<open>
  What can happen to a session in its lifetime: the owner rebinds a reference, or the
  controller serves a request.
\<close>

datatype action = Configure assignment | Serve request

fun act :: "world \<Rightarrow> action \<Rightarrow> world" where
  "act (sc, n) (Configure a) = (sc, assign n a)"
| "act (sc, n) (Serve r) = step (sc, n) r"

definition session_run :: "world \<Rightarrow> action list \<Rightarrow> world" where
  "session_run w acts = foldl act w acts"

text \<open>The point \<open>AddPoint\<close> samples: what \<open>ComputePointCoordinates\<close> writes into the zeroed array.\<close>

definition sampled_point :: "Frames \<Rightarrow> Scene \<Rightarrow> CollectPointsNode \<Rightarrow> point" where
  "sampled_point fr sc n = fst (snd (ComputePointCoordinates fr sc (Some n) (0, 0, 0)))"

text \<open>The number a string of decimal digits denotes.\<close>

definition decimal_value :: "string \<Rightarrow> nat" where
  "decimal_value cs = foldl (\<lambda>a c. 10 * a + (of_char c - 48)) 0 cs"

section \<open>Concrete scenes and sessions\<close>

text \<open>
  The matrix whose translation component is \<open>p\<close>, a frame provider that places the
  sampling frame at \<open>w\<close> relative to world and at \<open>a\<close> relative to any other frame,
  a session bound to the frame \<open>Probe\<close> and the output \<open>Out\<close>, and scenes in which
  \<open>Out\<close> is a point-set sink or a mesh sink.
\<close>

definition translation_matrix :: "point \<Rightarrow> Matrix4x4" where
  "translation_matrix p =
     (\<lambda>i j. if j = 3
            then (case p of (x, y, z) \<Rightarrow> if i = 0 then x else if i = 1 then y else if i = 2 then z else 1)
            else if i = j then 1 else 0)"

definition frames_at :: "point \<Rightarrow> point \<Rightarrow> Frames" where
  "frames_at w a =
     \<lparr>MatrixTransformToWorld = (\<lambda>s. translation_matrix w),
      MatrixTransformToNode = (\<lambda>s t. translation_matrix a)\<rparr>"

definition bound_session :: CollectPointsNode where
  "bound_session =
     New_CollectPointsNode\<lparr>SamplingTransformNodeID := Some ''Probe'', OutputNodeID := Some ''Out''\<rparr>"

definition markups_scene :: "(string \<times> point) list \<Rightarrow> Scene" where
  "markups_scene ms = [''Probe'' \<mapsto> LinearTransformNode, ''Out'' \<mapsto> MarkupsFiducialNode ms]"

definition model_scene :: "PolyData option \<Rightarrow> Scene" where
  "model_scene pd = [''Probe'' \<mapsto> LinearTransformNode, ''Out'' \<mapsto> ModelNode pd]"

section \<open>Auxiliary facts\<close>

lemmas scenario_defs = bound_session_def markups_scene_def model_scene_def New_CollectPointsNode_def
  GetOutputNode_def GetNodeReference_def SafeDownCast_Markups_def SafeDownCast_Model_def
  SafeDownCast_LinearTransform_def GetSamplingTransformNode_def GetAnchorTransformNode_def

lemma show_int_examples:
  "show_int 0 = ''0''" "show_int 1 = ''1''" "show_int 12 = ''12''" "show_int (- 5) = ''-5''"
  by code_simp+

lemma SafeDownCast_Markups_SomeD:
  "SafeDownCast_Markups sc x = Some (i, ms) \<Longrightarrow> x = Some i \<and> sc i = Some (MarkupsFiducialNode ms)"
  by (auto simp: SafeDownCast_Markups_def split: option.splits MRMLNode.splits)

lemma SafeDownCast_Model_SomeD:
  "SafeDownCast_Model sc x = Some (i, pd) \<Longrightarrow> x = Some i \<and> sc i = Some (ModelNode pd)"
  by (auto simp: SafeDownCast_Model_def split: option.splits MRMLNode.splits)

lemma euclidean_distance_sqrt:
  "euclidean_distance p q = sqrt (Distance2BetweenPoints p q)"
  by (simp add: euclidean_distance_def Distance2BetweenPoints_def power2_eq_square split: prod.splits)

lemma nth_last_point: "ps \<noteq> [] \<Longrightarrow> ps ! (length ps - Suc 0) = last ps"
  by (simp add: last_conv_nth)

lemma label_new_fiducial:
  "SetNthFiducialLabel (ms @ [([], p)]) (length ms) l = ms @ [(l, p)]"
  by (simp add: SetNthFiducialLabel_def)

lemma AddPointToMarkups_eq:
  assumes "SafeDownCast_Markups sc (GetOutputNode sc n) = Some (i, ms)"
  shows "AddPointToMarkups sc n p =
    (if Admit p (previous_point (map snd ms)) (ComputeMinimumDistanceFromPreviousPointMm n)
     then ([], sc(i \<mapsto> MarkupsFiducialNode (ms @ [(LabelBase n @ show_int (LabelCounter n), p)])),
           n\<lparr>LabelCounter := LabelCounter n + 1\<rparr>)
     else ([], sc, n))"
proof (cases "ms = []")
  case True
  with assms show ?thesis
    by (simp add: AddPointToMarkups_def Admit_def previous_point_def AddFiducialFromArray_def
        SetNthFiducialLabel_def)
next
  case False
  then have "snd (ms ! (length ms - 1)) = last (map snd ms)"
    by (simp add: last_conv_nth)
  with assms False show ?thesis
    by (simp add: AddPointToMarkups_def Admit_def previous_point_def AddFiducialFromArray_def
        label_new_fiducial euclidean_distance_sqrt Let_def not_less)
qed

lemma UpdateCellsForPolyData_Some:
  "UpdateCellsForPolyData (Some pd) =
     ([], Some (pd\<lparr>Verts := Some (map (\<lambda>ptId. [ptId]) [0..<GetNumberOfPoints pd]),
                   Lines := None, Polys := None\<rparr>))"
  by (simp add: UpdateCellsForPolyData_def Let_def)

lemma AddPointToModel_eq:
  assumes "SafeDownCast_Model sc (GetOutputNode sc n) = Some (i, pd0)"
  shows "AddPointToModel sc n p =
    (if Admit p (previous_point (points_of pd0)) (ComputeMinimumDistanceFromPreviousPointMm n)
     then ([], sc(i \<mapsto> ModelNode (Some (appended_mesh pd0 p))), n)
     else ([], sc, n))"
proof (cases "points_of pd0 = []")
  case True
  with assms show ?thesis
    by (auto simp: AddPointToModel_def Admit_def previous_point_def UpdateCellsForPolyData_Some
        appended_mesh_def points_of_def GetNumberOfPoints_def Let_def New_PolyData_def
        split: option.splits)
next
  case False
  then obtain pd ps where pd: "pd0 = Some pd" "Points pd = Some ps" "ps \<noteq> []"
    by (auto simp: points_of_def split: option.splits)
  have same: "sc(i \<mapsto> ModelNode (Some (pd\<lparr>Points := Some ps\<rparr>))) = sc"
    using SafeDownCast_Model_SomeD [OF assms] pd by (auto simp: fun_upd_idem_iff)
  from assms pd same show ?thesis
    by (simp add: AddPointToModel_def Admit_def previous_point_def UpdateCellsForPolyData_Some
        appended_mesh_def points_of_def GetNumberOfPoints_def Let_def nth_last_point
        euclidean_distance_sqrt not_less)
qed

lemma ComputePointCoordinates_bound:
  "GetSamplingTransformNode sc n = Some s \<Longrightarrow>
   ComputePointCoordinates fr sc (Some n) out = ([], sampled_point fr sc n, True)"
  by (simp add: ComputePointCoordinates_def sampled_point_def Let_def split: option.splits)

lemma AddPoint_markups:
  assumes "GetSamplingTransformNode sc n = Some s"
    and "SafeDownCast_Markups sc (GetOutputNode sc n) = Some (i, ms)"
  shows "AddPoint fr sc (Some n) =
     (case AddPointToMarkups sc n (sampled_point fr sc n) of (msgs, sc', n') \<Rightarrow> (msgs, sc', Some n'))"
  using assms SafeDownCast_Markups_SomeD [OF assms(2)]
  by (simp add: AddPoint_def ComputePointCoordinates_bound split: prod.splits)

lemma AddPoint_model:
  assumes "GetSamplingTransformNode sc n = Some s"
    and "SafeDownCast_Model sc (GetOutputNode sc n) = Some (j, pd0)"
  shows "AddPoint fr sc (Some n) =
     (case AddPointToModel sc n (sampled_point fr sc n) of (msgs, sc', n') \<Rightarrow> (msgs, sc', Some n'))"
proof -
  from SafeDownCast_Model_SomeD [OF assms(2)]
  have o: "GetOutputNode sc n = Some j" "sc j = Some (ModelNode pd0)" by simp_all
  then have "SafeDownCast_Markups sc (Some j) = None"
    by (simp add: SafeDownCast_Markups_def)
  with assms o show ?thesis
    by (simp add: AddPoint_def ComputePointCoordinates_bound split: prod.splits)
qed

lemma AddPoint_other:
  assumes "GetSamplingTransformNode sc n = Some s"
    and "GetOutputNode sc n = Some k"
    and "SafeDownCast_Markups sc (Some k) = None" and "SafeDownCast_Model sc (Some k) = None"
  shows "AddPoint fr sc (Some n) = ([Error UnsupportedOutputKind], sc, Some n)"
  using assms by (simp add: AddPoint_def ComputePointCoordinates_bound)

section \<open>The coordinate sampler\<close>

text \<open>
  C6. \<open>ComputePointCoordinates\<close> reports \<open>MissingFrame\<close>, sets \<open>success\<close> to false
  and leaves the output array as it was whenever the session has no sampling frame.
  With a sampling frame and no anchor frame it returns the elements (0,3), (1,3), (2,3)
  of the sampling frame's matrix to world; with an anchor frame, the same elements of
  the sampling frame's matrix to the anchor frame.
\<close>

theorem ComputePointCoordinates_cases:
  "(GetSamplingTransformNode sc n = None \<longrightarrow>
      ComputePointCoordinates fr sc (Some n) out = ([Error MissingFrame], out, False)) \<and>
   (GetSamplingTransformNode sc n = Some s \<and> GetAnchorTransformNode sc n = None \<longrightarrow>
      ComputePointCoordinates fr sc (Some n) out =
        ([], (GetElement (MatrixTransformToWorld fr s) 0 3, GetElement (MatrixTransformToWorld fr s) 1 3,
              GetElement (MatrixTransformToWorld fr s) 2 3), True)) \<and>
   (GetSamplingTransformNode sc n = Some s \<and> GetAnchorTransformNode sc n = Some a \<longrightarrow>
      ComputePointCoordinates fr sc (Some n) out =
        ([], (GetElement (MatrixTransformToNode fr s a) 0 3, GetElement (MatrixTransformToNode fr s a) 1 3,
              GetElement (MatrixTransformToNode fr s a) 2 3), True))"
  by (simp add: ComputePointCoordinates_def Let_def)

theorem ComputePointCoordinates_cases_witness:
  "ComputePointCoordinates (frames_at (1, 2, 3) (4, 5, 6)) Map.empty (Some New_CollectPointsNode) (7, 8, 9) =
     ([Error MissingFrame], (7, 8, 9), False) \<and>
   ComputePointCoordinates (frames_at (1, 2, 3) (4, 5, 6)) (markups_scene []) (Some bound_session) (7, 8, 9) =
     ([], (1, 2, 3), True) \<and>
   ComputePointCoordinates (frames_at (1, 2, 3) (4, 5, 6)) ((markups_scene [])(''Ref'' \<mapsto> LinearTransformNode))
       (Some (bound_session\<lparr>AnchorTransformNodeID := Some ''Ref''\<rparr>)) (7, 8, 9) =
     ([], (4, 5, 6), True)"
  using ComputePointCoordinates_cases [of Map.empty New_CollectPointsNode "frames_at (1, 2, 3) (4, 5, 6)" "(7, 8, 9)" "''Probe''" "''Ref''"]
    ComputePointCoordinates_cases [of "markups_scene []" bound_session "frames_at (1, 2, 3) (4, 5, 6)" "(7, 8, 9)" "''Probe''" "''Ref''"]
    ComputePointCoordinates_cases [of "(markups_scene [])(''Ref'' \<mapsto> LinearTransformNode)"
      "bound_session\<lparr>AnchorTransformNodeID := Some ''Ref''\<rparr>" "frames_at (1, 2, 3) (4, 5, 6)" "(7, 8, 9)" "''Probe''" "''Ref''"]
  by (simp add: scenario_defs frames_at_def translation_matrix_def GetElement_def)

section \<open>Counting the points of the output\<close>

text \<open>
  C10. \<open>GetNumberOfPointsInOutput\<close> has a result in every case: 0 without a bound
  sink, the number of fiducials of a point-set sink, 0 for a mesh sink without poly
  data, the number of points of a mesh sink with poly data, and 0 after the
  unsupported-kind error for any other output. The function returns only its messages
  and the count: the source writes to neither scene nor session.
\<close>

theorem GetNumberOfPointsInOutput_cases:
  "(GetOutputNode sc n = None \<longrightarrow> GetNumberOfPointsInOutput sc n = ([], 0)) \<and>
   (SafeDownCast_Markups sc (GetOutputNode sc n) = Some (i, ms) \<longrightarrow>
      GetNumberOfPointsInOutput sc n = ([], int (length ms))) \<and>
   (SafeDownCast_Model sc (GetOutputNode sc n) = Some (j, None) \<longrightarrow>
      GetNumberOfPointsInOutput sc n = ([], 0)) \<and>
   (SafeDownCast_Model sc (GetOutputNode sc n) = Some (j, Some pd) \<longrightarrow>
      GetNumberOfPointsInOutput sc n = ([], int (length (points_of (Some pd))))) \<and>
   (GetOutputNode sc n = Some k \<and> SafeDownCast_Markups sc (Some k) = None \<and>
    SafeDownCast_Model sc (Some k) = None \<longrightarrow>
      GetNumberOfPointsInOutput sc n = ([Error UnsupportedOutputKind], 0))"
proof (intro conjI impI)
  assume "GetOutputNode sc n = None"
  then show "GetNumberOfPointsInOutput sc n = ([], 0)"
    by (simp add: GetNumberOfPointsInOutput_def)
next
  assume a: "SafeDownCast_Markups sc (GetOutputNode sc n) = Some (i, ms)"
  with SafeDownCast_Markups_SomeD [OF a] show "GetNumberOfPointsInOutput sc n = ([], int (length ms))"
    by (simp add: GetNumberOfPointsInOutput_def)
next
  assume a: "SafeDownCast_Model sc (GetOutputNode sc n) = Some (j, None)"
  from SafeDownCast_Model_SomeD [OF a] have o: "GetOutputNode sc n = Some j" "sc j = Some (ModelNode None)"
    by simp_all
  then have "SafeDownCast_Markups sc (Some j) = None" by (simp add: SafeDownCast_Markups_def)
  with a o show "GetNumberOfPointsInOutput sc n = ([], 0)"
    by (simp add: GetNumberOfPointsInOutput_def)
next
  assume a: "SafeDownCast_Model sc (GetOutputNode sc n) = Some (j, Some pd)"
  from SafeDownCast_Model_SomeD [OF a] have o: "GetOutputNode sc n = Some j" "sc j = Some (ModelNode (Some pd))"
    by simp_all
  then have "SafeDownCast_Markups sc (Some j) = None" by (simp add: SafeDownCast_Markups_def)
  with a o show "GetNumberOfPointsInOutput sc n = ([], int (length (points_of (Some pd))))"
    by (simp add: GetNumberOfPointsInOutput_def GetNumberOfPoints_def points_of_def split: option.splits)
next
  assume "GetOutputNode sc n = Some k \<and> SafeDownCast_Markups sc (Some k) = None \<and>
    SafeDownCast_Model sc (Some k) = None"
  then show "GetNumberOfPointsInOutput sc n = ([Error UnsupportedOutputKind], 0)"
    by (simp add: GetNumberOfPointsInOutput_def)
qed

theorem GetNumberOfPointsInOutput_cases_witness:
  "GetNumberOfPointsInOutput Map.empty New_CollectPointsNode = ([], 0) \<and>
   GetNumberOfPointsInOutput (markups_scene [(''P0'', (0, 0, 0)), (''P1'', (1, 0, 0))]) bound_session = ([], 2) \<and>
   GetNumberOfPointsInOutput (model_scene None) bound_session = ([], 0) \<and>
   GetNumberOfPointsInOutput (model_scene (Some (New_PolyData\<lparr>Points := Some [(0, 0, 0)]\<rparr>))) bound_session = ([], 1) \<and>
   GetNumberOfPointsInOutput [''Out'' \<mapsto> OtherNode] bound_session = ([Error UnsupportedOutputKind], 0)"
  using GetNumberOfPointsInOutput_cases [of Map.empty New_CollectPointsNode "''Out''" "[]" "''Out''" New_PolyData "''Out''"]
    GetNumberOfPointsInOutput_cases [of "markups_scene [(''P0'', (0, 0, 0)), (''P1'', (1, 0, 0))]" bound_session
      "''Out''" "[(''P0'', (0, 0, 0)), (''P1'', (1, 0, 0))]" "''Out''" New_PolyData "''Out''"]
    GetNumberOfPointsInOutput_cases [of "model_scene None" bound_session "''Out''" "[]" "''Out''" New_PolyData "''Out''"]
    GetNumberOfPointsInOutput_cases [of "model_scene (Some (New_PolyData\<lparr>Points := Some [(0, 0, 0)]\<rparr>))" bound_session
      "''Out''" "[]" "''Out''" "New_PolyData\<lparr>Points := Some [(0, 0, 0)]\<rparr>" "''Out''"]
    GetNumberOfPointsInOutput_cases [of "[''Out'' \<mapsto> OtherNode]" bound_session "''Out''" "[]" "''Out''" New_PolyData "''Out''"]
  by (simp add: scenario_defs points_of_def)

section \<open>Adding a point\<close>

lemma AddPointToMarkups_no_markups:
  "SafeDownCast_Markups sc (GetOutputNode sc n) = None \<Longrightarrow>
   AddPointToMarkups sc n p = ([Error OutputNodeIsNull], sc, n)"
  by (simp add: AddPointToMarkups_def)

lemma AddPointToModel_no_model:
  "SafeDownCast_Model sc (GetOutputNode sc n) = None \<Longrightarrow>
   AddPointToModel sc n p = ([Error OutputNodeIsNull], sc, n)"
  by (simp add: AddPointToModel_def)

lemma AddPoint_unbound_frame:
  "GetSamplingTransformNode sc n = None \<Longrightarrow> AddPoint fr sc (Some n) = ([Error NoSamplingFrame], sc, Some n)"
  by (simp add: AddPoint_def)

lemma AddPoint_unbound_output:
  "GetSamplingTransformNode sc n = Some s \<Longrightarrow> GetOutputNode sc n = None \<Longrightarrow>
   AddPoint fr sc (Some n) = ([Error NoOutput], sc, Some n)"
  by (simp add: AddPoint_def)

text \<open>Every outcome of AddPoint, by cases.\<close>

lemma AddPoint_outcomes:
  "AddPoint fr sc (Some n) = ([Error NoSamplingFrame], sc, Some n) \<or>
   AddPoint fr sc (Some n) = ([Error NoOutput], sc, Some n) \<or>
   AddPoint fr sc (Some n) = ([Error UnsupportedOutputKind], sc, Some n) \<or>
   AddPoint fr sc (Some n) = ([], sc, Some n) \<or>
   (\<exists>i ms. SafeDownCast_Markups sc (GetOutputNode sc n) = Some (i, ms) \<and>
      AddPoint fr sc (Some n) =
        ([], sc(i \<mapsto> MarkupsFiducialNode (ms @ [(LabelBase n @ show_int (LabelCounter n), sampled_point fr sc n)])),
         Some (n\<lparr>LabelCounter := LabelCounter n + 1\<rparr>))) \<or>
   (\<exists>j pd0. SafeDownCast_Model sc (GetOutputNode sc n) = Some (j, pd0) \<and>
      AddPoint fr sc (Some n) =
        ([], sc(j \<mapsto> ModelNode (Some (appended_mesh pd0 (sampled_point fr sc n)))), Some n))"
proof (cases "GetSamplingTransformNode sc n")
  case None
  then show ?thesis by (simp add: AddPoint_unbound_frame)
next
  case (Some s)
  show ?thesis
  proof (cases "GetOutputNode sc n")
    case None
    with Some show ?thesis by (simp add: AddPoint_unbound_output)
  next
    case (Some k) note k = this
    show ?thesis
    proof (cases "SafeDownCast_Markups sc (Some k)")
      case (Some ims)
      then obtain i ms where "SafeDownCast_Markups sc (GetOutputNode sc n) = Some (i, ms)"
        using k by (cases ims) simp
      with \<open>GetSamplingTransformNode sc n = Some s\<close> show ?thesis
        by (simp add: AddPoint_markups AddPointToMarkups_eq)
    next
      case None note nm = this
      show ?thesis
      proof (cases "SafeDownCast_Model sc (Some k)")
        case None
        with nm k \<open>GetSamplingTransformNode sc n = Some s\<close> show ?thesis
          by (simp add: AddPoint_other)
      next
        case (Some jpd)
        then obtain j pd0 where "SafeDownCast_Model sc (GetOutputNode sc n) = Some (j, pd0)"
          using k by (cases jpd) simp
        with \<open>GetSamplingTransformNode sc n = Some s\<close> show ?thesis
          by (simp add: AddPoint_model AddPointToModel_eq)
      qed
    qed
  qed
qed

lemma AddPoint_error_no_mutation:
  assumes "Error e \<in> set (fst (AddPoint fr sc cpn))"
  shows "snd (AddPoint fr sc cpn) = (sc, cpn)"
proof (cases cpn)
  case None
  then show ?thesis by (simp add: AddPoint_def)
next
  case (Some n)
  with assms AddPoint_outcomes [of fr sc n] show ?thesis by auto
qed

text \<open>
  C3, as the code has it. \<open>AddPoint\<close> tests the sampling frame first and the sink
  second: without a sampling frame it reports \<open>NoSamplingFrame\<close>, whether or not a
  sink is bound, and only with a sampling frame and without a sink does it report
  \<open>NoOutput\<close>. Whenever it reports an error it leaves scene and session as they were.
\<close>

theorem AddPoint_precondition_order:
  "(GetSamplingTransformNode sc n = None \<longrightarrow>
      AddPoint fr sc (Some n) = ([Error NoSamplingFrame], sc, Some n)) \<and>
   (GetSamplingTransformNode sc n \<noteq> None \<and> GetOutputNode sc n = None \<longrightarrow>
      AddPoint fr sc (Some n) = ([Error NoOutput], sc, Some n)) \<and>
   (Error e \<in> set (fst (AddPoint fr sc cpn)) \<longrightarrow> snd (AddPoint fr sc cpn) = (sc, cpn))"
  by (auto simp: AddPoint_unbound_frame AddPoint_unbound_output AddPoint_error_no_mutation)

theorem AddPoint_precondition_order_witness:
  "AddPoint (frames_at (1, 2, 3) (4, 5, 6)) Map.empty (Some New_CollectPointsNode) =
     ([Error NoSamplingFrame], Map.empty, Some New_CollectPointsNode) \<and>
   AddPoint (frames_at (1, 2, 3) (4, 5, 6)) [''Probe'' \<mapsto> LinearTransformNode] (Some bound_session) =
     ([Error NoOutput], [''Probe'' \<mapsto> LinearTransformNode], Some bound_session) \<and>
   snd (AddPoint (frames_at (1, 2, 3) (4, 5, 6)) [''Probe'' \<mapsto> LinearTransformNode, ''Out'' \<mapsto> OtherNode]
          (Some bound_session)) =
     ([''Probe'' \<mapsto> LinearTransformNode, ''Out'' \<mapsto> OtherNode], Some bound_session)"
  using AddPoint_precondition_order [of Map.empty New_CollectPointsNode "frames_at (1, 2, 3) (4, 5, 6)"
      NoSamplingFrame "Some New_CollectPointsNode"]
    AddPoint_precondition_order [of "[''Probe'' \<mapsto> LinearTransformNode]" bound_session
      "frames_at (1, 2, 3) (4, 5, 6)" NoOutput "Some bound_session"]
    AddPoint_precondition_order [of "[''Probe'' \<mapsto> LinearTransformNode, ''Out'' \<mapsto> OtherNode]" bound_session
      "frames_at (1, 2, 3) (4, 5, 6)" UnsupportedOutputKind "Some bound_session"]
    AddPoint_other [of "[''Probe'' \<mapsto> LinearTransformNode, ''Out'' \<mapsto> OtherNode]" bound_session "''Probe''" "''Out''"
      "frames_at (1, 2, 3) (4, 5, 6)"]
  by (simp add: scenario_defs)

theorem AddPoint_neither_bound_counterexample:
  "GetOutputNode Map.empty New_CollectPointsNode = None \<and>
   GetSamplingTransformNode Map.empty New_CollectPointsNode = None \<and>
   fst (AddPoint (frames_at (0, 0, 0) (0, 0, 0)) Map.empty (Some New_CollectPointsNode)) = [Error NoSamplingFrame] \<and>
   fst (AddPoint (frames_at (0, 0, 0) (0, 0, 0)) Map.empty (Some New_CollectPointsNode)) \<noteq> [Error NoOutput]"
  by (simp add: AddPoint_def scenario_defs)

section \<open>The effective minimum distance\<close>

text \<open>
  C5. The minimum distance the gate is given is \<open>MinimumDistanceMm\<close> in automatic
  mode and 0 otherwise. Hence \<open>AddPoint\<close> in manual mode, with sampling frame and sink
  bound, appends the sampled point whatever the configured minimum distance and the
  sink's contents are: to a point-set sink with its label, to a mesh sink with the
  vertex topology rebuilt.
\<close>

theorem manual_requests_not_gated:
  "ComputeMinimumDistanceFromPreviousPointMm n =
     (if CollectMode n = Automatic then MinimumDistanceMm n else 0) \<and>
   (CollectMode n = Manual \<and> GetSamplingTransformNode sc n = Some s \<and>
    SafeDownCast_Markups sc (GetOutputNode sc n) = Some (i, ms) \<longrightarrow>
      AddPoint fr sc (Some n) =
        ([], sc(i \<mapsto> MarkupsFiducialNode
                    (ms @ [(LabelBase n @ show_int (LabelCounter n), sampled_point fr sc n)])),
         Some (n\<lparr>LabelCounter := LabelCounter n + 1\<rparr>))) \<and>
   (CollectMode n = Manual \<and> GetSamplingTransformNode sc n = Some s \<and>
    SafeDownCast_Model sc (GetOutputNode sc n) = Some (j, pd0) \<longrightarrow>
      AddPoint fr sc (Some n) =
        ([], sc(j \<mapsto> ModelNode (Some (appended_mesh pd0 (sampled_point fr sc n)))), Some n))"
  by (simp add: ComputeMinimumDistanceFromPreviousPointMm_def AddPoint_markups AddPoint_model
      AddPointToMarkups_eq AddPointToModel_eq Admit_def)

theorem manual_requests_not_gated_witness:
  "ComputeMinimumDistanceFromPreviousPointMm bound_session = 0 \<and>
   MinimumDistanceMm bound_session = 10 \<and>
   AddPoint (frames_at (1, 0, 0) (0, 0, 0)) (markups_scene [(''P0'', (0, 0, 0))]) (Some bound_session) =
     ([], (markups_scene [(''P0'', (0, 0, 0))])
            (''Out'' \<mapsto> MarkupsFiducialNode [(''P0'', (0, 0, 0)), (''P0'', (1, 0, 0))]),
      Some (bound_session\<lparr>LabelCounter := 1\<rparr>)) \<and>
   AddPoint (frames_at (1, 0, 0) (0, 0, 0)) (model_scene (Some (New_PolyData\<lparr>Points := Some [(0, 0, 0)]\<rparr>)))
       (Some bound_session) =
     ([], (model_scene (Some (New_PolyData\<lparr>Points := Some [(0, 0, 0)]\<rparr>)))
            (''Out'' \<mapsto> ModelNode (Some \<lparr>Points = Some [(0, 0, 0), (1, 0, 0)], Verts = Some [[0], [1]],
                                            Lines = None, Polys = None, Strips = None\<rparr>)),
      Some bound_session)"
  using manual_requests_not_gated [of bound_session "markups_scene [(''P0'', (0, 0, 0))]" "''Probe''"
      "''Out''" "[(''P0'', (0, 0, 0))]" "frames_at (1, 0, 0) (0, 0, 0)" "''Out''" None]
    manual_requests_not_gated [of bound_session "model_scene (Some (New_PolyData\<lparr>Points := Some [(0, 0, 0)]\<rparr>))"
      "''Probe''" "''Out''" "[]" "frames_at (1, 0, 0) (0, 0, 0)" "''Out''"
      "Some (New_PolyData\<lparr>Points := Some [(0, 0, 0)]\<rparr>)"]
  by (simp add: scenario_defs show_int_examples sampled_point_def ComputePointCoordinates_def
      frames_at_def translation_matrix_def GetElement_def appended_mesh_def points_of_def New_PolyData_def
      upt_rec)

section \<open>The deprecated probe-transform accessors\<close>

lemma SetAndObserveProbeTransformNodeID_diverges:
  "SetAndObserveProbeTransformNodeID n nodeID = None"
proof (cases "SetAndObserveProbeTransformNodeID n nodeID")
  case None
  then show ?thesis .
next
  case (Some r)
  have False
  proof (rule SetAndObserveProbeTransformNodeID.raw_induct [where P = "\<lambda>_ _ _. False", OF _ Some])
    fix f :: "CollectPointsNode \<Rightarrow> node_id option \<Rightarrow> (report list \<times> CollectPointsNode) option"
      and m j r
    assume IH: "\<And>m j r. f m j = Some r \<Longrightarrow> False"
      and "Option.bind (f m j) (\<lambda>(msgs, n'). Some (Warning Deprecated # msgs, n')) = Some r"
    then obtain z where "f m j = Some z"
      by (auto simp: bind_eq_Some_conv)
    with IH show False .
  qed
  then show ?thesis ..
qed

text \<open>
  C9. \<open>GetProbeTransformNode\<close> returns what \<open>GetSamplingTransformNode\<close> returns. The
  setter does not: on a fresh session \<open>SetAndObserveSamplingTransformNodeID\<close> binds
  the frame, while \<open>SetAndObserveProbeTransformNodeID\<close>, which calls itself, never
  returns.
\<close>

theorem deprecated_probe_setter_does_not_return:
  "snd (GetProbeTransformNode (markups_scene []) bound_session) =
     GetSamplingTransformNode (markups_scene []) bound_session \<and>
   SetAndObserveSamplingTransformNodeID New_CollectPointsNode (Some ''Probe'') =
     ([Invoked InputDataModifiedEvent], New_CollectPointsNode\<lparr>SamplingTransformNodeID := Some ''Probe''\<rparr>) \<and>
   SetAndObserveProbeTransformNodeID New_CollectPointsNode (Some ''Probe'') = None"
  by (simp add: SetAndObserveProbeTransformNodeID_diverges GetProbeTransformNode_def
      SetAndObserveSamplingTransformNodeID_def New_CollectPointsNode_def)

section \<open>What a request does to the session\<close>

lemma step_session:
  "snd (step (sc, n) r) = n \<or>
   snd (step (sc, n) r) = n\<lparr>LabelCounter := LabelCounter n + 1\<rparr> \<or>
   (snd (step (sc, n) r) = n\<lparr>CollectMode := Manual\<rparr> \<and> CollectMode n = Automatic \<and>
    (\<exists>fr. r = SamplingFrameChanged fr) \<and>
    (GetOutputNode sc n = None \<or> GetSamplingTransformNode sc n = None))"
proof (cases r)
  case (RequestAddPoint fr)
  with AddPoint_outcomes [of fr sc n] show ?thesis
    by (auto simp: keep_node_def)
next
  case RequestRemoveLastPoint
  then show ?thesis by simp
next
  case RequestRemoveAllPoints
  then show ?thesis by simp
next
  case (SamplingFrameChanged fr)
  with AddPoint_outcomes [of fr sc n] show ?thesis
    by (auto simp: keep_node_def ProcessMRMLNodesEvents_def SetCollectModeToManual_def)
qed

section \<open>The same-frame invariant\<close>

lemma assign_frames_differ: "frames_differ n \<Longrightarrow> frames_differ (assign n a)"
  by (cases a)
    (auto simp: frames_differ_def SetAndObserveSamplingTransformNodeID_def
      SetAndObserveAnchorTransformNodeID_def SetOutputNodeID_def Let_def split: option.splits)

lemma step_session_cases:
  obtains "snd (step (sc, n) r) = n"
  | "snd (step (sc, n) r) = n\<lparr>LabelCounter := LabelCounter n + 1\<rparr>"
  | "snd (step (sc, n) r) = n\<lparr>CollectMode := Manual\<rparr>"
  using step_session [of sc n r] by blast

lemma step_frames_differ: "frames_differ n \<Longrightarrow> frames_differ (snd (step (sc, n) r))"
  by (rule step_session_cases [of sc n r]) (simp_all add: frames_differ_def)

lemma act_frames_differ: "frames_differ (snd w) \<Longrightarrow> frames_differ (snd (act w a))"
  by (cases w; cases a) (simp_all add: assign_frames_differ step_frames_differ)

lemma session_run_frames_differ:
  "frames_differ (snd w) \<Longrightarrow> frames_differ (snd (session_run w acts))"
  unfolding session_run_def
  by (induction acts arbitrary: w) (simp_all add: act_frames_differ)

text \<open>
  C7. Setting the sampling reference to the frame the anchor reference is bound to, or
  the anchor reference to the frame the sampling reference is bound to, leaves the
  session exactly as it was; when the two references differed before, the call reports
  \<open>FrameConflict\<close>. Hence the two references, when both set, differ in every session
  state reached from a state where they differ (a new session is one) by rebinding
  references through the setters and serving requests.
\<close>

theorem frame_references_never_coincide:
  "(AnchorTransformNodeID n = Some x \<longrightarrow> snd (SetAndObserveSamplingTransformNodeID n (Some x)) = n) \<and>
   (SamplingTransformNodeID n = Some x \<longrightarrow> snd (SetAndObserveAnchorTransformNodeID n (Some x)) = n) \<and>
   (frames_differ n \<and> AnchorTransformNodeID n = Some x \<longrightarrow>
      SetAndObserveSamplingTransformNodeID n (Some x) = ([Error FrameConflict], n)) \<and>
   (frames_differ n \<and> SamplingTransformNodeID n = Some x \<longrightarrow>
      SetAndObserveAnchorTransformNodeID n (Some x) = ([Error FrameConflict], n)) \<and>
   (frames_differ (snd w) \<longrightarrow> frames_differ (snd (session_run w acts))) \<and>
   frames_differ (snd (session_run (sc, New_CollectPointsNode) acts))"
proof (intro conjI impI)
  show "frames_differ (snd (session_run (sc, New_CollectPointsNode) acts))"
    by (rule session_run_frames_differ) (simp add: frames_differ_def New_CollectPointsNode_def)
next
  assume "frames_differ (snd w)"
  then show "frames_differ (snd (session_run w acts))"
    by (rule session_run_frames_differ)
next
  assume "AnchorTransformNodeID n = Some x"
  then show "snd (SetAndObserveSamplingTransformNodeID n (Some x)) = n"
    by (simp add: SetAndObserveSamplingTransformNodeID_def Let_def)
next
  assume "SamplingTransformNodeID n = Some x"
  then show "snd (SetAndObserveAnchorTransformNodeID n (Some x)) = n"
    by (simp add: SetAndObserveAnchorTransformNodeID_def Let_def)
next
  assume "frames_differ n \<and> AnchorTransformNodeID n = Some x"
  then show "SetAndObserveSamplingTransformNodeID n (Some x) = ([Error FrameConflict], n)"
    by (auto simp: SetAndObserveSamplingTransformNodeID_def Let_def frames_differ_def)
next
  assume "frames_differ n \<and> SamplingTransformNodeID n = Some x"
  then show "SetAndObserveAnchorTransformNodeID n (Some x) = ([Error FrameConflict], n)"
    by (auto simp: SetAndObserveAnchorTransformNodeID_def Let_def frames_differ_def)
qed

theorem frame_references_never_coincide_witness:
  "SetAndObserveAnchorTransformNodeID (New_CollectPointsNode\<lparr>SamplingTransformNodeID := Some ''F1''\<rparr>) (Some ''F1'') =
     ([Error FrameConflict], New_CollectPointsNode\<lparr>SamplingTransformNodeID := Some ''F1''\<rparr>) \<and>
   SetAndObserveSamplingTransformNodeID (New_CollectPointsNode\<lparr>AnchorTransformNodeID := Some ''F1''\<rparr>) (Some ''F1'') =
     ([Error FrameConflict], New_CollectPointsNode\<lparr>AnchorTransformNodeID := Some ''F1''\<rparr>) \<and>
   snd (session_run (Map.empty, New_CollectPointsNode)
          [Configure (AssignSampling (Some ''F1'')), Configure (AssignAnchor (Some ''F1''))]) =
     New_CollectPointsNode\<lparr>SamplingTransformNodeID := Some ''F1''\<rparr> \<and>
   frames_differ (snd (session_run (Map.empty, New_CollectPointsNode)
          [Configure (AssignSampling (Some ''F1'')), Configure (AssignAnchor (Some ''F1''))]))"
  using frame_references_never_coincide [of "New_CollectPointsNode\<lparr>SamplingTransformNodeID := Some ''F1''\<rparr>" "''F1''"
      "(Map.empty, New_CollectPointsNode)"
      "[Configure (AssignSampling (Some ''F1'')), Configure (AssignAnchor (Some ''F1''))]" Map.empty]
    frame_references_never_coincide [of "New_CollectPointsNode\<lparr>AnchorTransformNodeID := Some ''F1''\<rparr>" "''F1''"
      "(Map.empty, New_CollectPointsNode)" "[]" Map.empty]
  by (simp add: frames_differ_def New_CollectPointsNode_def session_run_def
      SetAndObserveSamplingTransformNodeID_def SetAndObserveAnchorTransformNodeID_def)

section \<open>Frame-change notifications\<close>

lemma assign_CollectMode: "CollectMode (assign n a) = CollectMode n"
  by (cases a)
    (auto simp: SetAndObserveSamplingTransformNodeID_def SetAndObserveAnchorTransformNodeID_def
      SetOutputNodeID_def Let_def)

text \<open>
  C8. On the event \<open>InputDataModifiedEvent\<close>, \<open>ProcessMRMLNodesEvents\<close> does nothing
  in manual mode. In automatic mode with the sink or the sampling frame unbound it
  sets the mode to manual, leaves the scene as it is and reports the one warning. In
  automatic mode with both bound its result is that of \<open>AddPoint\<close>. Among the
  rebinding of references and the controller's requests, a step from automatic to
  manual mode is always a frame-change notification with sink or sampling frame
  unbound.
\<close>

theorem frame_change_notification:
  "(CollectMode n = Manual \<longrightarrow>
      ProcessMRMLNodesEvents fr sc (Some n) InputDataModifiedEvent = ([], sc, Some n)) \<and>
   (CollectMode n = Automatic \<and> (GetOutputNode sc n = None \<or> GetSamplingTransformNode sc n = None) \<longrightarrow>
      ProcessMRMLNodesEvents fr sc (Some n) InputDataModifiedEvent =
        ([Warning NotFullySetUp], sc, Some (n\<lparr>CollectMode := Manual\<rparr>))) \<and>
   (CollectMode n = Automatic \<and> GetOutputNode sc n \<noteq> None \<and> GetSamplingTransformNode sc n \<noteq> None \<longrightarrow>
      ProcessMRMLNodesEvents fr sc (Some n) InputDataModifiedEvent = AddPoint fr sc (Some n)) \<and>
   (CollectMode n = Automatic \<and> CollectMode (snd (act (sc, n) a)) = Manual \<longrightarrow>
      (\<exists>fr'. a = Serve (SamplingFrameChanged fr')) \<and>
      (GetOutputNode sc n = None \<or> GetSamplingTransformNode sc n = None))"
proof (intro conjI impI)
  assume a: "CollectMode n = Automatic \<and> CollectMode (snd (act (sc, n) a)) = Manual"
  have "(\<exists>fr'. a = Serve (SamplingFrameChanged fr')) \<and>
      (GetOutputNode sc n = None \<or> GetSamplingTransformNode sc n = None)"
  proof (cases a)
    case (Configure c)
    with a show ?thesis by (auto simp: assign_CollectMode)
  next
    case (Serve r)
    with a step_session [of sc n r] show ?thesis by auto
  qed
  then show "\<exists>fr'. a = Serve (SamplingFrameChanged fr')"
    and "GetOutputNode sc n = None \<or> GetSamplingTransformNode sc n = None"
    by simp_all
qed (auto simp: ProcessMRMLNodesEvents_def SetCollectModeToManual_def)

theorem frame_change_notification_witness:
  "ProcessMRMLNodesEvents (frames_at (1, 2, 3) (4, 5, 6)) (markups_scene []) (Some bound_session)
       InputDataModifiedEvent = ([], markups_scene [], Some bound_session) \<and>
   ProcessMRMLNodesEvents (frames_at (1, 2, 3) (4, 5, 6)) [''Probe'' \<mapsto> LinearTransformNode]
       (Some (bound_session\<lparr>CollectMode := Automatic\<rparr>)) InputDataModifiedEvent =
     ([Warning NotFullySetUp], [''Probe'' \<mapsto> LinearTransformNode], Some bound_session) \<and>
   ProcessMRMLNodesEvents (frames_at (1, 2, 3) (4, 5, 6)) (markups_scene [])
       (Some (bound_session\<lparr>CollectMode := Automatic\<rparr>)) InputDataModifiedEvent =
     AddPoint (frames_at (1, 2, 3) (4, 5, 6)) (markups_scene []) (Some (bound_session\<lparr>CollectMode := Automatic\<rparr>)) \<and>
   GetOutputNode [''Probe'' \<mapsto> LinearTransformNode] (bound_session\<lparr>CollectMode := Automatic\<rparr>) = None"
  using frame_change_notification [of bound_session "frames_at (1, 2, 3) (4, 5, 6)" "markups_scene []"
      "Serve RequestRemoveLastPoint"]
    frame_change_notification [of "bound_session\<lparr>CollectMode := Automatic\<rparr>" "frames_at (1, 2, 3) (4, 5, 6)"
      "[''Probe'' \<mapsto> LinearTransformNode]" "Serve (SamplingFrameChanged (frames_at (1, 2, 3) (4, 5, 6)))"]
    frame_change_notification [of "bound_session\<lparr>CollectMode := Automatic\<rparr>" "frames_at (1, 2, 3) (4, 5, 6)"
      "markups_scene []" "Serve RequestRemoveLastPoint"]
  by (simp add: scenario_defs keep_node_def)

section \<open>The mesh sink's topology\<close>

lemma copy_all_but_last: "map ((!) ps) [0..<length ps - Suc 0] = butlast ps"
  by (simp add: list_eq_iff_nth_eq nth_butlast)

lemma RemoveLastPointFromModel_eq:
  "RemoveLastPointFromModel sc (Some (j, pd0)) = ([], sc(j \<mapsto> ModelNode (Some (removed_last_mesh pd0))))"
  by (auto simp: RemoveLastPointFromModel_def removed_last_mesh_def points_of_def Let_def
      UpdateCellsForPolyData_Some copy_all_but_last GetNumberOfPoints_def New_PolyData_def
      split: option.splits)

lemma model_is_not_markups:
  "SafeDownCast_Model sc x = Some (j, pd0) \<Longrightarrow> SafeDownCast_Markups sc x = None"
  by (auto simp: SafeDownCast_Model_def SafeDownCast_Markups_def split: option.splits MRMLNode.splits)

lemma mesh_step_Append:
  assumes "SafeDownCast_Model sc (GetOutputNode sc n) = Some (j, pd0)"
  shows "mesh_step (sc, n) (Append p) =
    (if Admit p (previous_point (points_of pd0)) (ComputeMinimumDistanceFromPreviousPointMm n)
     then (sc(j \<mapsto> ModelNode (Some (appended_mesh pd0 p))), n) else (sc, n))"
  by (simp add: AddPointToModel_eq [OF assms])

lemma mesh_step_RemoveLast:
  assumes "SafeDownCast_Model sc (GetOutputNode sc n) = Some (j, pd0)"
  shows "mesh_step (sc, n) RemoveLast = (sc(j \<mapsto> ModelNode (Some (removed_last_mesh pd0))), n)"
  using assms SafeDownCast_Model_SomeD [OF assms] model_is_not_markups [OF assms]
  by (simp add: RemoveLastPoint_def RemoveLastPointFromModel_eq)

lemma mesh_step_RemoveAll:
  assumes "SafeDownCast_Model sc (GetOutputNode sc n) = Some (j, pd0)"
  shows "mesh_step (sc, n) RemoveAll = (sc(j \<mapsto> ModelNode (Some New_PolyData)), n)"
  using assms SafeDownCast_Model_SomeD [OF assms] model_is_not_markups [OF assms]
  by (simp add: RemoveAllPoints_def)

lemma model_binding_update:
  assumes "SafeDownCast_Model sc (GetOutputNode sc n) = Some (j, pd0)"
  shows "SafeDownCast_Model (sc(j \<mapsto> ModelNode pd1)) (GetOutputNode (sc(j \<mapsto> ModelNode pd1)) n) = Some (j, pd1)"
  using SafeDownCast_Model_SomeD [OF assms]
  by (auto simp: GetOutputNode_def GetNodeReference_def SafeDownCast_Model_def split: option.splits)

lemma rebuilt_cells_appended: "rebuilt_cells (Some (appended_mesh pd0 p))"
  by (simp add: rebuilt_cells_def appended_mesh_def cells_of_def GetNumberOfPoints_def)

lemma rebuilt_cells_New: "rebuilt_cells (Some New_PolyData)"
  by (simp add: rebuilt_cells_def New_PolyData_def cells_of_def GetNumberOfPoints_def)

lemma rebuilt_cells_removed_last:
  "points_of pd0 \<noteq> [] \<Longrightarrow> rebuilt_cells (Some (removed_last_mesh pd0))"
  by (simp add: rebuilt_cells_def removed_last_mesh_def cells_of_def GetNumberOfPoints_def)

lemma rebuilt_cells_removed_last_kept:
  "rebuilt_cells pd0 \<Longrightarrow> rebuilt_cells (Some (removed_last_mesh pd0))"
proof (cases "points_of pd0 = []")
  case False
  then show ?thesis by (rule rebuilt_cells_removed_last)
next
  case True
  assume "rebuilt_cells pd0"
  with True show ?thesis
    by (auto simp: rebuilt_cells_def removed_last_mesh_def cells_of_def GetNumberOfPoints_def
        points_of_def New_PolyData_def split: option.splits)
qed

text \<open>No operation writes the strips: an append and a removal keep them, a new poly data has none.\<close>

lemma strips_of_appended: "strips_of (Some (appended_mesh pd0 p)) = strips_of pd0"
  by (simp add: strips_of_def appended_mesh_def New_PolyData_def cells_of_def split: option.splits)

lemma strips_of_removed_last: "strips_of (Some (removed_last_mesh pd0)) = strips_of pd0"
  by (simp add: strips_of_def removed_last_mesh_def New_PolyData_def cells_of_def split: option.splits)

lemma strips_of_New: "strips_of (Some New_PolyData) = []"
  by (simp add: strips_of_def New_PolyData_def cells_of_def)

lemma vertex_topology_appended:
  "vertex_topology pd0 \<Longrightarrow> vertex_topology (Some (appended_mesh pd0 p))"
  by (simp add: vertex_topology_def rebuilt_cells_appended strips_of_appended)

lemma vertex_topology_New: "vertex_topology (Some New_PolyData)"
  by (simp add: vertex_topology_def rebuilt_cells_New strips_of_New)

lemma vertex_topology_removed_last_kept:
  "vertex_topology pd0 \<Longrightarrow> vertex_topology (Some (removed_last_mesh pd0))"
  by (simp add: vertex_topology_def rebuilt_cells_removed_last_kept strips_of_removed_last)

lemma GetNumberOfCellsIn_cells_of: "GetNumberOfCellsIn ca = length (cells_of ca)"
  by (cases ca) (simp_all add: GetNumberOfCellsIn_def cells_of_def)

lemma GetNumberOfPoints_points_of: "GetNumberOfPoints d = length (points_of (Some d))"
  by (cases "Points d") (simp_all add: GetNumberOfPoints_def points_of_def)

lemma vertex_topology_counts:
  assumes "vertex_topology pd"
  shows "cell_count pd = length (points_of pd)"
proof (cases pd)
  case None
  then show ?thesis by (simp add: cell_count_def points_of_def)
next
  case (Some d)
  with assms have "cells_of (Verts d) = map (\<lambda>ptId. [ptId]) [0..<GetNumberOfPoints d]"
    and "cells_of (Lines d) = []" and "cells_of (Polys d) = []" and "cells_of (Strips d) = []"
    by (simp_all add: vertex_topology_def rebuilt_cells_def strips_of_def)
  with Some show ?thesis
    by (simp add: cell_count_def GetNumberOfCells_def GetNumberOfCellsIn_cells_of
        GetNumberOfPoints_points_of)
qed

lemma mesh_step_keeps_topology:
  assumes b: "SafeDownCast_Model sc (GetOutputNode sc n) = Some (j, pd0)"
    and v: "vertex_topology pd0"
  shows "\<exists>sc' pd1. mesh_step (sc, n) op = (sc', n) \<and>
           SafeDownCast_Model sc' (GetOutputNode sc' n) = Some (j, pd1) \<and> vertex_topology pd1"
proof (cases op)
  case (Append p)
  show ?thesis
  proof (cases "Admit p (previous_point (points_of pd0)) (ComputeMinimumDistanceFromPreviousPointMm n)")
    case True
    with Append have "mesh_step (sc, n) op = (sc(j \<mapsto> ModelNode (Some (appended_mesh pd0 p))), n)"
      by (simp add: mesh_step_Append [OF b] del: mesh_step.simps)
    with model_binding_update [OF b] vertex_topology_appended [OF v] show ?thesis
      by blast
  next
    case False
    with Append have "mesh_step (sc, n) op = (sc, n)"
      by (simp add: mesh_step_Append [OF b] del: mesh_step.simps)
    with b v show ?thesis by blast
  qed
next
  case RemoveLast
  then have "mesh_step (sc, n) op = (sc(j \<mapsto> ModelNode (Some (removed_last_mesh pd0))), n)"
    by (simp add: mesh_step_RemoveLast [OF b] del: mesh_step.simps)
  with model_binding_update [OF b] vertex_topology_removed_last_kept [OF v] show ?thesis
    by blast
next
  case RemoveAll
  then have "mesh_step (sc, n) op = (sc(j \<mapsto> ModelNode (Some New_PolyData)), n)"
    by (simp add: mesh_step_RemoveAll [OF b] del: mesh_step.simps)
  with model_binding_update [OF b] vertex_topology_New show ?thesis
    by blast
qed

lemma mesh_run_keeps_topology:
  assumes "SafeDownCast_Model sc (GetOutputNode sc n) = Some (j, pd0)" and "vertex_topology pd0"
  shows "\<exists>sc' pd1. mesh_run (sc, n) ops = (sc', n) \<and>
           SafeDownCast_Model sc' (GetOutputNode sc' n) = Some (j, pd1) \<and> vertex_topology pd1"
  using assms
proof (induction ops arbitrary: sc pd0)
  case Nil
  then show ?case by (simp add: mesh_run_def)
next
  case (Cons op ops)
  from mesh_step_keeps_topology [OF Cons.prems, of op]
  obtain sc1 pd1 where s: "mesh_step (sc, n) op = (sc1, n)"
    and b: "SafeDownCast_Model sc1 (GetOutputNode sc1 n) = Some (j, pd1)" and v: "vertex_topology pd1"
    by blast
  from Cons.IH [OF b v] s show ?case
    by (simp add: mesh_run_def del: mesh_step.simps)
qed

lemma mesh_step_changed_points:
  assumes b: "SafeDownCast_Model sc (GetOutputNode sc n) = Some (j, pd0)"
    and c: "points_of (OutputPolyData (mesh_step (sc, n) op)) \<noteq> points_of pd0"
  shows "rebuilt_cells (OutputPolyData (mesh_step (sc, n) op))"
proof (cases op)
  case (Append p)
  show ?thesis
  proof (cases "Admit p (previous_point (points_of pd0)) (ComputeMinimumDistanceFromPreviousPointMm n)")
    case True
    with Append have "mesh_step (sc, n) op = (sc(j \<mapsto> ModelNode (Some (appended_mesh pd0 p))), n)"
      by (simp add: mesh_step_Append [OF b] del: mesh_step.simps)
    with model_binding_update [OF b] rebuilt_cells_appended show ?thesis
      by (simp add: OutputPolyData_def del: mesh_step.simps)
  next
    case False
    with Append have "mesh_step (sc, n) op = (sc, n)"
      by (simp add: mesh_step_Append [OF b] del: mesh_step.simps)
    with b c show ?thesis by (simp add: OutputPolyData_def del: mesh_step.simps)
  qed
next
  case RemoveLast
  then have s: "mesh_step (sc, n) op = (sc(j \<mapsto> ModelNode (Some (removed_last_mesh pd0))), n)"
    by (simp add: mesh_step_RemoveLast [OF b] del: mesh_step.simps)
  with c model_binding_update [OF b] have "points_of (Some (removed_last_mesh pd0)) \<noteq> points_of pd0"
    by (simp add: OutputPolyData_def del: mesh_step.simps)
  then have "points_of pd0 \<noteq> []"
    by (auto simp: removed_last_mesh_def points_of_def)
  with s model_binding_update [OF b] rebuilt_cells_removed_last show ?thesis
    by (simp add: OutputPolyData_def del: mesh_step.simps)
next
  case RemoveAll
  then have "mesh_step (sc, n) op = (sc(j \<mapsto> ModelNode (Some New_PolyData)), n)"
    by (simp add: mesh_step_RemoveAll [OF b] del: mesh_step.simps)
  with model_binding_update [OF b] rebuilt_cells_New show ?thesis
    by (simp add: OutputPolyData_def del: mesh_step.simps)
qed

text \<open>
  C2, as the code has it. For a session bound to a mesh sink: when the sink's topology
  is the vertex topology at the start (one single-point vertex cell per point in
  point-index order and no other cell; a sink without poly data is such a sink), then
  after every sequence of \<open>Append\<close>, \<open>RemoveLast\<close> and \<open>RemoveAll\<close> it is the vertex
  topology again and the cell count equals the point count. From any mesh sink, an
  operation that changes the point array leaves one single-point vertex cell per
  point in point-index order, no line cell and no polygon cell, and \<open>RemoveAll\<close>
  leaves a new, empty poly data. \<open>RemoveLast\<close> on a mesh sink without points installs
  an empty point array and returns: the cells stay as they were.
\<close>

theorem mesh_topology_after_operations:
  "(SafeDownCast_Model sc (GetOutputNode sc n) = Some (j, pd0) \<and> vertex_topology pd0 \<longrightarrow>
      vertex_topology (OutputPolyData (mesh_run (sc, n) ops)) \<and>
      cell_count (OutputPolyData (mesh_run (sc, n) ops)) =
        length (points_of (OutputPolyData (mesh_run (sc, n) ops)))) \<and>
   (SafeDownCast_Model sc (GetOutputNode sc n) = Some (j, pd0) \<and>
    points_of (OutputPolyData (mesh_step (sc, n) op)) \<noteq> points_of pd0 \<longrightarrow>
      rebuilt_cells (OutputPolyData (mesh_step (sc, n) op))) \<and>
   (SafeDownCast_Model sc (GetOutputNode sc n) = Some (j, pd0) \<longrightarrow>
      OutputPolyData (mesh_step (sc, n) RemoveAll) = Some New_PolyData) \<and>
   (SafeDownCast_Model sc (GetOutputNode sc n) = Some (j, pd0) \<and> points_of pd0 = [] \<longrightarrow>
      mesh_step (sc, n) RemoveLast =
        (sc(j \<mapsto> ModelNode (Some ((case pd0 of None \<Rightarrow> New_PolyData | Some pd \<Rightarrow> pd)\<lparr>Points := Some []\<rparr>))), n))"
proof (intro conjI impI)
  assume a: "SafeDownCast_Model sc (GetOutputNode sc n) = Some (j, pd0) \<and> vertex_topology pd0"
  then obtain sc' pd1 where "mesh_run (sc, n) ops = (sc', n)"
    and "SafeDownCast_Model sc' (GetOutputNode sc' n) = Some (j, pd1)" and "vertex_topology pd1"
    using mesh_run_keeps_topology [of sc n j pd0 ops] by blast
  then show v: "vertex_topology (OutputPolyData (mesh_run (sc, n) ops))"
    by (simp add: OutputPolyData_def)
  then show "cell_count (OutputPolyData (mesh_run (sc, n) ops)) =
        length (points_of (OutputPolyData (mesh_run (sc, n) ops)))"
    by (rule vertex_topology_counts)
next
  assume a: "SafeDownCast_Model sc (GetOutputNode sc n) = Some (j, pd0) \<and>
    points_of (OutputPolyData (mesh_step (sc, n) op)) \<noteq> points_of pd0"
  then show "rebuilt_cells (OutputPolyData (mesh_step (sc, n) op))"
    using mesh_step_changed_points [of sc n j pd0 op] by blast
next
  assume b: "SafeDownCast_Model sc (GetOutputNode sc n) = Some (j, pd0)"
  with model_binding_update [OF b] show "OutputPolyData (mesh_step (sc, n) RemoveAll) = Some New_PolyData"
    by (simp add: mesh_step_RemoveAll [OF b] OutputPolyData_def del: mesh_step.simps)
next
  assume a: "SafeDownCast_Model sc (GetOutputNode sc n) = Some (j, pd0) \<and> points_of pd0 = []"
  then have b: "SafeDownCast_Model sc (GetOutputNode sc n) = Some (j, pd0)" by simp
  from a show "mesh_step (sc, n) RemoveLast =
        (sc(j \<mapsto> ModelNode (Some ((case pd0 of None \<Rightarrow> New_PolyData | Some pd \<Rightarrow> pd)\<lparr>Points := Some []\<rparr>))), n)"
    by (simp add: mesh_step_RemoveLast [OF b] removed_last_mesh_def del: mesh_step.simps)
qed

theorem mesh_topology_after_operations_witness:
  "OutputPolyData (mesh_run (model_scene None, bound_session)
      [Append (0, 0, 0), Append (1, 0, 0), Append (2, 0, 0), RemoveLast]) =
     Some \<lparr>Points = Some [(0, 0, 0), (1, 0, 0)], Verts = Some [[0], [1]], Lines = None, Polys = None,
           Strips = None\<rparr> \<and>
   vertex_topology (OutputPolyData (mesh_run (model_scene None, bound_session)
      [Append (0, 0, 0), Append (1, 0, 0), Append (2, 0, 0), RemoveLast])) \<and>
   cell_count (OutputPolyData (mesh_run (model_scene None, bound_session)
      [Append (0, 0, 0), Append (1, 0, 0), Append (2, 0, 0), RemoveLast])) = 2 \<and>
   OutputPolyData (mesh_step (model_scene (Some \<lparr>Points = Some [(0, 0, 0), (1, 0, 0)], Verts = None,
        Lines = Some [[0, 1]], Polys = None, Strips = None\<rparr>), bound_session) RemoveLast) =
     Some \<lparr>Points = Some [(0, 0, 0)], Verts = Some [[0]], Lines = None, Polys = None, Strips = None\<rparr> \<and>
   rebuilt_cells (OutputPolyData (mesh_step (model_scene (Some \<lparr>Points = Some [(0, 0, 0), (1, 0, 0)],
        Verts = None, Lines = Some [[0, 1]], Polys = None, Strips = None\<rparr>), bound_session) RemoveLast)) \<and>
   mesh_step (model_scene None, bound_session) RemoveLast =
     ((model_scene None)(''Out'' \<mapsto> ModelNode (Some (New_PolyData\<lparr>Points := Some []\<rparr>))), bound_session)"
  using mesh_topology_after_operations [of "model_scene None" bound_session "''Out''" None
      "[Append (0, 0, 0), Append (1, 0, 0), Append (2, 0, 0), RemoveLast]" RemoveAll]
    mesh_topology_after_operations [of "model_scene (Some \<lparr>Points = Some [(0, 0, 0), (1, 0, 0)], Verts = None,
        Lines = Some [[0, 1]], Polys = None, Strips = None\<rparr>)" bound_session "''Out''"
      "Some \<lparr>Points = Some [(0, 0, 0), (1, 0, 0)], Verts = None, Lines = Some [[0, 1]], Polys = None,
             Strips = None\<rparr>" "[]" RemoveLast]
  by (simp add: mesh_run_def RemoveLastPoint_def RemoveLastPointFromModel_def AddPointToModel_def
      UpdateCellsForPolyData_def ComputeMinimumDistanceFromPreviousPointMm_def GetNumberOfPoints_def
      scenario_defs OutputPolyData_def vertex_topology_def rebuilt_cells_def strips_of_def cells_of_def
      New_PolyData_def points_of_def cell_count_def GetNumberOfCells_def GetNumberOfCellsIn_def Let_def upt_rec)

theorem mesh_remove_last_on_empty_counterexample:
  "points_of (OutputPolyData (mesh_run (model_scene (Some (New_PolyData\<lparr>Lines := Some [[0, 1]]\<rparr>)), bound_session)
                               [RemoveLast])) = [] \<and>
   cell_count (OutputPolyData (mesh_run (model_scene (Some (New_PolyData\<lparr>Lines := Some [[0, 1]]\<rparr>)), bound_session)
                               [RemoveLast])) = 1 \<and>
   OutputPolyData (mesh_run (model_scene (Some (New_PolyData\<lparr>Lines := Some [[0, 1]]\<rparr>)), bound_session) [RemoveLast]) =
     Some \<lparr>Points = Some [], Verts = None, Lines = Some [[0, 1]], Polys = None, Strips = None\<rparr>"
  by (simp add: mesh_run_def RemoveLastPoint_def RemoveLastPointFromModel_def scenario_defs OutputPolyData_def
      New_PolyData_def points_of_def cell_count_def GetNumberOfCells_def GetNumberOfCellsIn_def Let_def)

section \<open>The label counter\<close>

lemma AddPointToModel_session: "snd (snd (AddPointToModel sc n p)) = n"
proof (cases "SafeDownCast_Model sc (GetOutputNode sc n)")
  case None
  then show ?thesis by (simp add: AddPointToModel_no_model)
next
  case (Some m)
  then obtain j pd0 where "SafeDownCast_Model sc (GetOutputNode sc n) = Some (j, pd0)"
    by (cases m) simp
  then show ?thesis by (simp add: AddPointToModel_eq)
qed

lemma assign_LabelCounter: "LabelCounter (assign n a) = LabelCounter n"
  by (cases a)
    (auto simp: SetAndObserveSamplingTransformNodeID_def SetAndObserveAnchorTransformNodeID_def
      SetOutputNodeID_def Let_def)

lemma step_LabelCounter: "LabelCounter n \<le> LabelCounter (snd (step (sc, n) r))"
  by (rule step_session_cases [of sc n r]) simp_all

lemma act_LabelCounter: "LabelCounter (snd w) \<le> LabelCounter (snd (act w a))"
  by (cases w; cases a) (simp_all add: assign_LabelCounter step_LabelCounter del: step.simps)

lemma session_run_LabelCounter: "LabelCounter (snd w) \<le> LabelCounter (snd (session_run w acts))"
  unfolding session_run_def
proof (induction acts arbitrary: w)
  case Nil
  show ?case by simp
next
  case (Cons a acts)
  have "LabelCounter (snd w) \<le> LabelCounter (snd (act w a))"
    by (rule act_LabelCounter)
  also have "\<dots> \<le> LabelCounter (snd (foldl act (act w a) acts))"
    by (rule Cons.IH)
  finally show ?case by simp
qed

lemma digit_char: "d < 10 \<Longrightarrow> of_char (char_of (48 + d) :: char) = (48 + d :: nat)"
  by simp

lemma decimal_value_show_nat: "decimal_value (show_nat k) = k"
proof (induction k rule: show_nat.induct)
  case (1 n)
  show ?case
  proof (cases "n < 10")
    case True
    then show ?thesis
      by (subst show_nat.simps) (simp add: decimal_value_def)
  next
    case False
    have "n mod 10 < 10" by simp
    then have d: "of_char (char_of (48 + n mod 10) :: char) = (48 + n mod 10 :: nat)"
      by (rule digit_char)
    from False 1 have "decimal_value (show_nat (n div 10)) = n div 10" by simp
    with False d show ?thesis
      by (subst show_nat.simps) (simp add: decimal_value_def)
  qed
qed

lemma show_nat_not_empty: "show_nat k \<noteq> []"
  by (subst show_nat.simps) simp

lemma show_nat_unpadded: "0 < k \<Longrightarrow> hd (show_nat k) \<noteq> CHR ''0''"
proof (induction k rule: show_nat.induct)
  case (1 n)
  show ?case
  proof (cases "n < 10")
    case True
    with 1(2) have "char_of (48 + n) \<noteq> (char_of (48::nat) :: char)"
      by (simp add: char_of_eq_iff take_bit_nat_eq_self)
    moreover have "CHR ''0'' = char_of (48::nat)"
      by code_simp
    ultimately show ?thesis using True
      by (subst show_nat.simps) simp
  next
    case False
    then have "0 < n div 10" by simp
    with 1 False have "hd (show_nat (n div 10)) \<noteq> CHR ''0''" by simp
    with False show ?thesis
      by (subst show_nat.simps) (simp add: show_nat_not_empty)
  qed
qed

text \<open>
  C4. An admitted append to a point-set sink stores the label \<open>LabelBase\<close> followed
  by the decimal rendering of \<open>LabelCounter\<close> and adds one to the counter; a rejected
  one changes nothing. \<open>AddPointToModel\<close>, \<open>RemoveLastPoint\<close> and \<open>RemoveAllPoints\<close>
  leave the session, and so the counter, as it was. Hence over any sequence of
  reference rebindings and controller requests the counter never decreases. The
  rendering of a natural number denotes that number and has no leading zero.
\<close>

theorem label_counter_protocol:
  "(SafeDownCast_Markups sc (GetOutputNode sc n) = Some (i, ms) \<and>
    Admit p (previous_point (map snd ms)) (ComputeMinimumDistanceFromPreviousPointMm n) \<longrightarrow>
      AddPointToMarkups sc n p =
        ([], sc(i \<mapsto> MarkupsFiducialNode (ms @ [(LabelBase n @ show_int (LabelCounter n), p)])),
         n\<lparr>LabelCounter := LabelCounter n + 1\<rparr>)) \<and>
   (SafeDownCast_Markups sc (GetOutputNode sc n) = Some (i, ms) \<and>
    \<not> Admit p (previous_point (map snd ms)) (ComputeMinimumDistanceFromPreviousPointMm n) \<longrightarrow>
      AddPointToMarkups sc n p = ([], sc, n)) \<and>
   snd (snd (AddPointToModel sc n p)) = n \<and>
   snd (step (sc, n) RequestRemoveLastPoint) = n \<and>
   snd (step (sc, n) RequestRemoveAllPoints) = n \<and>
   LabelCounter (snd w) \<le> LabelCounter (snd (session_run w acts)) \<and>
   decimal_value (show_nat k) = k \<and> (0 < k \<longrightarrow> hd (show_nat k) \<noteq> CHR ''0'') \<and>
   (0 \<le> LabelCounter n \<longrightarrow> show_int (LabelCounter n) = show_nat (nat (LabelCounter n)))"
  by (simp add: AddPointToMarkups_eq AddPointToModel_session session_run_LabelCounter
      decimal_value_show_nat show_nat_unpadded show_int_def)

theorem label_counter_protocol_witness:
  "AddPointToMarkups (markups_scene [(''P0'', (0, 0, 0))]) (bound_session\<lparr>LabelCounter := 12\<rparr>) (1, 0, 0) =
     ([], (markups_scene [(''P0'', (0, 0, 0))])
            (''Out'' \<mapsto> MarkupsFiducialNode [(''P0'', (0, 0, 0)), (''P12'', (1, 0, 0))]),
      bound_session\<lparr>LabelCounter := 13\<rparr>) \<and>
   AddPointToMarkups (markups_scene [(''P0'', (0, 0, 0))])
       (bound_session\<lparr>LabelCounter := 12, CollectMode := Automatic\<rparr>) (1, 0, 0) =
     ([], markups_scene [(''P0'', (0, 0, 0))], bound_session\<lparr>LabelCounter := 12, CollectMode := Automatic\<rparr>) \<and>
   session_run (markups_scene [], bound_session)
       [Serve (RequestAddPoint (frames_at (0, 0, 0) (0, 0, 0))),
        Serve (RequestAddPoint (frames_at (1, 0, 0) (0, 0, 0))),
        Serve RequestRemoveLastPoint] =
     ((markups_scene [])(''Out'' \<mapsto> MarkupsFiducialNode [(''P0'', (0, 0, 0))]),
      bound_session\<lparr>LabelCounter := 2\<rparr>) \<and>
   decimal_value (show_nat 12) = 12"
  using label_counter_protocol [of "markups_scene [(''P0'', (0, 0, 0))]" "bound_session\<lparr>LabelCounter := 12\<rparr>"
      "''Out''" "[(''P0'', (0, 0, 0))]" "(1, 0, 0)" "(markups_scene [], bound_session)" "[]" 12]
    label_counter_protocol [of "markups_scene [(''P0'', (0, 0, 0))]"
      "bound_session\<lparr>LabelCounter := 12, CollectMode := Automatic\<rparr>"
      "''Out''" "[(''P0'', (0, 0, 0))]" "(1, 0, 0)" "(markups_scene [], bound_session)" "[]" 12]
  by (simp add: scenario_defs Admit_def previous_point_def euclidean_distance_def
      ComputeMinimumDistanceFromPreviousPointMm_def show_int_examples session_run_def keep_node_def
      AddPoint_def ComputePointCoordinates_def AddPointToMarkups_def AddFiducialFromArray_def
      SetNthFiducialLabel_def RemoveLastPoint_def RemoveMarkup_def
      frames_at_def translation_matrix_def GetElement_def Distance2BetweenPoints_def Let_def)

end
